theory Spec2Isabelle
  imports Main "HOL-Library.Word"
begin

section \<open>The CouchDB state database (statecouchdb.go)\<close>

text \<open>
  Go strings and byte slices are sequences of bytes; both are modelled as \<open>string\<close>
  (a list of 8-bit characters). A byte slice that may be \<open>nil\<close> (the value of an
  update, where \<open>nil\<close> means deletion) is a \<open>string option\<close>.
\<close>

subsection \<open>Composite key codec\<close>

definition compositeKeySep :: string where
  "compositeKeySep = [CHR 0x00]"

definition lastKeyIndicator :: char where
  "lastKeyIndicator = CHR 0x01"

definition constructCompositeKey :: "string \<Rightarrow> string \<Rightarrow> string" where
  "constructCompositeKey ns key = (ns @ compositeKeySep) @ key"

text \<open>
  \<open>bytes.Index(s, sep)\<close>: the position of the first occurrence of \<open>sep\<close> in \<open>s\<close>,
  \<open>None\<close> for Go's \<open>-1\<close>.
\<close>

fun bytes_Index :: "string \<Rightarrow> string \<Rightarrow> nat option" where
  "bytes_Index [] sep = (if sep = [] then Some 0 else None)"
| "bytes_Index (c # cs) sep =
     (if take (length sep) (c # cs) = sep then Some 0
      else map_option Suc (bytes_Index cs sep))"

text \<open>
  \<open>bytes.SplitN(s, sep, 2)\<close> for a non-empty separator: one cut at the first
  occurrence of \<open>sep\<close>; the whole of \<open>s\<close> as the only element when there is none.
\<close>

definition bytes_SplitN2 :: "string \<Rightarrow> string \<Rightarrow> string list" where
  "bytes_SplitN2 s sep =
     (case bytes_Index s sep of
        None \<Rightarrow> [s]
      | Some m \<Rightarrow> [take m s, drop (m + length sep) s])"

datatype error =
    StoreError string
  | ErrorsNew string
  | UnmarshalError string
  | PanicIndexOutOfRange
  | PanicNilDereference

text \<open>
  \<open>StoreError msg\<close> is an error value the document store client returned,
  \<open>ErrorsNew msg\<close> an error value whose message is \<open>msg\<close>, as \<open>errors.New(msg)\<close>
  and \<open>fmt.Errorf\<close> build it, \<open>UnmarshalError msg\<close> an error of \<open>json.Unmarshal\<close>. The two \<open>Panic\<close> values are
  Go run-time panics: the function does not return to its caller.
\<close>

definition splitCompositeKey :: "string \<Rightarrow> error + (string \<times> string)" where
  "splitCompositeKey compositeKey =
     (let split = bytes_SplitN2 compositeKey compositeKeySep
      in if length split < 2 then Inl PanicIndexOutOfRange
         else Inr (split ! 0, split ! 1))"

text \<open>
  The order of \<open>bytes.Compare\<close>: byte-wise lexicographic, a proper prefix first.
\<close>

fun bytes_less :: "string \<Rightarrow> string \<Rightarrow> bool" where
  "bytes_less [] [] = False"
| "bytes_less [] (y # ys) = True"
| "bytes_less (x # xs) [] = False"
| "bytes_less (x # xs) (y # ys) =
     ((of_char x :: nat) < of_char y \<or> (x = y \<and> bytes_less xs ys))"

text \<open>
  Lines 293 to 296 of \<open>GetStateRangeScanIterator\<close>: the end key handed to the store.
  The encoded key is never empty, so the index \<open>len - 1\<close> is in range.
\<close>

definition compositeEndKey :: "string \<Rightarrow> string \<Rightarrow> string" where
  "compositeEndKey ns endKey =
     (let k = constructCompositeKey ns endKey
      in if endKey = [] then k[length k - 1 := lastKeyIndicator] else k)"


subsection \<open>Heights and their external strings\<close>

record Height =
  BlockNum :: "64 word"
  TxNum :: "64 word"

definition NewHeight :: "64 word \<Rightarrow> 64 word \<Rightarrow> Height" where
  "NewHeight blockNum txNum = \<lparr>BlockNum = blockNum, TxNum = txNum\<rparr>"

text \<open>
  \<open>strings.Split(s, sep)\<close> for a separator of one byte: every piece between two
  separators, so one more piece than there are separators, and never an empty slice.
\<close>

fun strings_Split :: "string \<Rightarrow> char \<Rightarrow> string list" where
  "strings_Split [] sep = [[]]"
| "strings_Split (c # cs) sep =
     (if c = sep then [] # strings_Split cs sep
      else (case strings_Split cs sep of
              [] \<Rightarrow> [[c]]
            | w # ws \<Rightarrow> (c # w) # ws))"

datatype NumError = ErrSyntax | ErrRange

text \<open>
  \<open>strconv.ParseUint(s, 10, 64)\<close>. The loop of the library: a byte that is no decimal
  digit ends it with 0 and a syntax error; a value that leaves 64 bits ends it with
  the greatest value and a range error. \<open>cutoff\<close> is \<open>maxUint64/10 + 1\<close>.
\<close>

definition cutoff :: "64 word" where
  "cutoff = 1844674407370955162"

definition maxUint64 :: "64 word" where
  "maxUint64 = 18446744073709551615"

fun ParseUint_loop :: "string \<Rightarrow> 64 word \<Rightarrow> 64 word \<times> NumError option" where
  "ParseUint_loop [] n = (n, None)"
| "ParseUint_loop (c # cs) n =
     (if (48::nat) \<le> of_char c \<and> of_char c \<le> (57::nat) then
        (if cutoff \<le> n then (maxUint64, Some ErrRange)
         else (let n10 = n * 10;
                   n1 = n10 + of_nat (of_char c - 48)
               in if n1 < n10 then (maxUint64, Some ErrRange)
                  else ParseUint_loop cs n1))
      else (0, Some ErrSyntax))"

definition strconv_ParseUint :: "string \<Rightarrow> 64 word \<times> NumError option" where
  "strconv_ParseUint s = (if s = [] then (0, Some ErrSyntax) else ParseUint_loop s 0)"

text \<open>
  The source indexes \<open>versionArray[1]\<close> without looking at the length of the slice:
  with fewer than two pieces Go panics, after the first number has been parsed.
\<close>

definition createVersionFromString :: "string \<Rightarrow> error + Height" where
  "createVersionFromString encodedVersion =
     (let versionArray = strings_Split encodedVersion (CHR '':'');
          blockNum = fst (strconv_ParseUint (versionArray ! 0))
      in if length versionArray < 2 then Inl PanicIndexOutOfRange
         else (let txNum = fst (strconv_ParseUint (versionArray ! 1))
               in Inr (NewHeight blockNum txNum)))"

text \<open>Decimal digits of a number, as \<open>%v\<close> prints an unsigned integer.\<close>

function decimal :: "nat \<Rightarrow> string" where
  "decimal n =
     (if n < 10 then [char_of (48 + n)]
      else decimal (n div 10) @ [char_of (48 + n mod 10)])"
  by pat_completeness auto
termination
  by (relation "measure id") auto

declare decimal.simps [simp del]

subsection \<open>Documents\<close>

text \<open>
  A JSON document is kept as the object it encodes, a map from field names to values:
  \<open>json.Marshal\<close> of a \<open>map[string]interface{}\<close> is modelled by that map, and so is
  what the decoder reads back into such a map (the empty map when the bytes do not
  decode). \<open>JRaw bs\<close> is a \<open>json.RawMessage\<close>: bytes put into the output as they are.
\<close>

datatype jsonv =
    JNull
  | JBool bool
  | JNumber string
  | JString string
  | JArray "jsonv list"
  | JObject "(string \<times> jsonv) list"
  | JRaw string

type_synonym jsonMap = "string \<rightharpoonup> jsonv"

record Attachment =
  AttachmentBytes :: "string option"
  ContentType :: string
  Name :: string

record CouchDoc =
  JSONValue :: jsonMap
  Attachments :: "Attachment list option"

text \<open>
  Modelled from the spec: the constant \<open>dataWrapper\<close> is declared in another file of
  the package; it is the fixed reserved field name under which a JSON value is inlined,
  and the comment in \<open>removeDataWrapper\<close> calls it the key named "data".
\<close>

definition dataWrapper :: string where
  "dataWrapper = ''data''"

definition binaryWrapper :: string where
  "binaryWrapper = ''valueBytes''"

text \<open>
  Functions of other packages that the source calls are parameters:
  \<open>couchdb.IsJSON\<close>, \<open>json.Marshal\<close> of a decoded value (\<open>None\<close> is Go's \<open>nil\<close>),
  \<open>json.Unmarshal\<close> into a \<open>couchdb.Doc\<close> (the \<open>Version\<close> field it leaves and its
  error), what \<open>%s\<close> prints for an array or an object, \<open>json.Valid\<close> (whether
  bytes are a JSON text, which is when \<open>json.Marshal\<close> accepts them as a
  \<open>json.RawMessage\<close>), and what \<open>fmt\<close> prints, without operands, for the rest of a
  format string from a directive with an argument index, a width or a precision on.
\<close>

record GoLib =
  IsJSON :: "string \<Rightarrow> bool"
  json_Marshal :: "jsonv option \<Rightarrow> string"
  json_Unmarshal_Doc :: "jsonMap \<Rightarrow> string \<times> string option"
  fmt_compound :: "jsonv \<Rightarrow> string"
  json_Valid :: "string \<Rightarrow> bool"
  fmt_directive :: "string \<Rightarrow> string"

text \<open>\<open>fmt.Sprintf("%s", v)\<close> for a decoded value; a missing map entry is \<open>nil\<close>.\<close>

definition fmt_Sprintf_s :: "GoLib \<Rightarrow> jsonv option \<Rightarrow> string" where
  "fmt_Sprintf_s lib v =
     (case v of
        None \<Rightarrow> ''%!s(<nil>)''
      | Some JNull \<Rightarrow> ''%!s(<nil>)''
      | Some (JString s) \<Rightarrow> s
      | Some (JNumber s) \<Rightarrow> s
      | Some (JBool b) \<Rightarrow> (if b then ''%!s(bool=true)'' else ''%!s(bool=false)'')
      | Some w \<Rightarrow> fmt_compound lib w)"

definition isNil :: "jsonv option \<Rightarrow> bool" where
  "isNil v = (v = None \<or> v = Some JNull)"

text \<open>
  \<open>fmt.Sprintf(format)\<close> without operands, the loop of \<open>doPrintf\<close>. Bytes up to a
  \<open>%\<close> are copied. After a \<open>%\<close> the flags \<open>#\<close>, \<open>0\<close>, \<open>+\<close>, \<open>-\<close> and space are
  skipped; then the end of the string prints \<open>%!(NOVERB)\<close>, the verb \<open>%\<close> prints
  \<open>%\<close>, and any other verb finds no operand and prints \<open>%!v(MISSING)\<close> with the verb
  for \<open>v\<close>. A directive that goes on with \<open>[\<close>, \<open>*\<close>, \<open>.\<close>, a digit from 1 to 9 or a
  byte outside ASCII is left to \<open>fmt_directive\<close>.
\<close>

definition isFlag :: "char \<Rightarrow> bool" where
  "isFlag c = (c = CHR ''#'' \<or> c = CHR ''0'' \<or> c = CHR ''+'' \<or> c = CHR ''-'' \<or> c = CHR '' '')"

definition isPlainVerb :: "char \<Rightarrow> bool" where
  "isPlainVerb c =
     (c \<noteq> CHR ''['' \<and> c \<noteq> CHR ''*'' \<and> c \<noteq> CHR ''.''
      \<and> \<not> ((49::nat) \<le> of_char c \<and> of_char c \<le> (57::nat))
      \<and> of_char c < (128::nat))"

fun doPrintf :: "GoLib \<Rightarrow> string \<Rightarrow> string"
  and doVerb :: "GoLib \<Rightarrow> string \<Rightarrow> string" where
  "doPrintf lib [] = []"
| "doPrintf lib (c # cs) = (if c = CHR ''%'' then doVerb lib cs else c # doPrintf lib cs)"
| "doVerb lib [] = ''%!(NOVERB)''"
| "doVerb lib (c # cs) =
     (if isFlag c then doVerb lib cs
      else if c = CHR ''%'' then CHR ''%'' # doPrintf lib cs
      else if isPlainVerb c then (''%!'' @ [c] @ ''(MISSING)'') @ doPrintf lib cs
      else fmt_directive lib (c # cs))"

text \<open>\<open>fmt.Errorf(format)\<close>: the error whose message is \<open>fmt.Sprintf(format)\<close>.\<close>

definition fmt_Errorf :: "GoLib \<Rightarrow> string \<Rightarrow> error" where
  "fmt_Errorf lib format = ErrorsNew (doPrintf lib format)"

definition removeDataWrapper ::
  "GoLib \<Rightarrow> jsonMap \<Rightarrow> Attachment list option \<Rightarrow> error + (string option \<times> Height)" where
  "removeDataWrapper lib wrappedValue attachments =
     (let jsonResult = wrappedValue;
          returnValue =
            (if isNil (jsonResult dataWrapper) \<and> attachments \<noteq> None then
               foldl (\<lambda>rv attachment.
                        if Name attachment = binaryWrapper then AttachmentBytes attachment
                        else rv)
                     (Some []) (the attachments)
             else Some (json_Marshal lib (jsonResult dataWrapper)));
          versionArray =
            strings_Split (fmt_Sprintf_s lib (jsonResult ''version'')) (CHR '':'');
          blockNum = fst (strconv_ParseUint (versionArray ! 0))
      in if length versionArray < 2 then Inl PanicIndexOutOfRange
         else (let txNum = fst (strconv_ParseUint (versionArray ! 1))
               in Inr (returnValue, NewHeight blockNum txNum)))"

text \<open>
  \<open>addCouchDBFieldsToValue\<close>. \<open>version\<close> is a pointer: reading \<open>version.BlockNum\<close>
  through \<open>nil\<close> panics. The source hands the map to \<open>json.Marshal\<close> and drops its
  error. \<open>json.Marshal\<close> fails on this map when the raw message under the data field
  is no JSON text, and then the function returns \<open>nil\<close> bytes: the document without
  any field, \<open>Map.empty\<close> (a marshalled map always holds \<open>version\<close> and \<open>_id\<close>).
\<close>

definition addCouchDBFieldsToValue ::
  "GoLib \<Rightarrow> string \<Rightarrow> string \<Rightarrow> string option \<Rightarrow> string \<Rightarrow> Height option \<Rightarrow> bool
     \<Rightarrow> error + jsonMap" where
  "addCouchDBFieldsToValue lib id' revision value' chaincodeID version deleted =
     (case version of
        None \<Rightarrow> Inl PanicNilDereference
      | Some v \<Rightarrow>
          (let jsonMap0 = [''version'' \<mapsto>
                 JString (decimal (unat (BlockNum v)) @ '':'' @ decimal (unat (TxNum v)))];
               jsonMap1 = jsonMap0(''_id'' \<mapsto> JString id');
               jsonMap2 = (if revision \<noteq> [] then jsonMap1(''_rev'' \<mapsto> JString revision)
                           else jsonMap1);
               jsonMap3 =
                 (if deleted then jsonMap2(''_deleted'' \<mapsto> JBool True)
                  else (let jsonMap2' = jsonMap2(''chaincodeid'' \<mapsto> JString chaincodeID)
                        in case value' of
                             None \<Rightarrow> jsonMap2'
                           | Some bs \<Rightarrow> jsonMap2'(dataWrapper \<mapsto> JRaw bs)));
               returnJSON =
                 (case jsonMap3 dataWrapper of
                    Some (JRaw bs) \<Rightarrow> (if json_Valid lib bs then jsonMap3 else Map.empty)
                  | _ \<Rightarrow> jsonMap3)
           in Inr returnJSON))"

subsection \<open>The document store client\<close>

text \<open>
  The client (package \<open>couchdb\<close>) is a collaborator. Its answer to a call is a function
  of the calls made so far and of the arguments, so it may be any deterministic store.
  A Go \<open>error\<close> result is a \<open>string option\<close>, \<open>None\<close> for \<open>nil\<close>; a result that
  the source reads through a pointer is an \<open>option\<close>, \<open>None\<close> for \<open>nil\<close>. The
  elements of a returned slice and of a key list are taken to be non-nil.
\<close>

record DocMetadata =
  ID :: string
  Rev :: string
  Version :: string
  Doc :: string

record BatchUpdateResponse =
  ID :: string
  Error :: string
  Reason :: string
  Ok :: bool

record DBOperationResponse =
  Ok :: bool

record DBInfo =
  UpdateSeq :: string

datatype call =
    ReadDoc_call string
  | ReadDocRange_call string string int int
  | BatchRetrieve_call "string list" bool
  | BatchUpdateDocuments_call "CouchDoc list"
  | EnsureFullCommit_call
  | GetDatabaseInfo_call
  | SaveDoc_call string string CouchDoc

record 'q CouchDatabase =
  ReadDoc :: "call list \<Rightarrow> string \<Rightarrow> CouchDoc option \<times> string \<times> string option"
  ReadDocRange ::
    "call list \<Rightarrow> string \<Rightarrow> string \<Rightarrow> int \<Rightarrow> int \<Rightarrow> 'q list option \<times> string option"
  BatchRetrieve :: "call list \<Rightarrow> string list \<Rightarrow> bool \<Rightarrow> DocMetadata list \<times> string option"
  BatchUpdateDocuments ::
    "call list \<Rightarrow> CouchDoc list \<Rightarrow> BatchUpdateResponse list \<times> string option"
  EnsureFullCommit :: "call list \<Rightarrow> DBOperationResponse option \<times> string option"
  GetDatabaseInfo :: "call list \<Rightarrow> DBInfo option \<times> string option"
  SaveDoc :: "call list \<Rightarrow> string \<Rightarrow> string \<Rightarrow> CouchDoc \<Rightarrow> string \<times> string option"

subsection \<open>The versioned cache and the database handle\<close>

record CompositeKey =
  Namespace :: string
  Key :: string

record VersionedValue =
  Value :: "string option"
  Version :: "Height option"

text \<open>
  The three Go maps. A key of \<open>committedVersions\<close> may be bound to the \<open>nil\<close>
  pointer and a key of \<open>committedValues\<close> to the \<open>nil\<close> slice: \<open>Some None\<close>.
\<close>

record CommittedVersions =
  committedVersions :: "CompositeKey \<rightharpoonup> Height option"
  revisionNumbers :: "CompositeKey \<rightharpoonup> string"
  committedValues :: "CompositeKey \<rightharpoonup> string option"

text \<open>
  The handle: \<open>dbCalls\<close> is the list of calls it has sent to its store, oldest first;
  the store itself is the \<open>CouchDatabase\<close> each operation takes.
\<close>

record VersionedDB =
  dbCalls :: "call list"
  committedData :: CommittedVersions

definition sent :: "VersionedDB \<Rightarrow> call \<Rightarrow> VersionedDB" where
  "sent vdb c = vdb\<lparr>dbCalls := dbCalls vdb @ [c]\<rparr>"

definition emptyCommittedVersions :: CommittedVersions where
  "emptyCommittedVersions =
     \<lparr>committedVersions = Map.empty, revisionNumbers = Map.empty,
      committedValues = Map.empty\<rparr>"

definition ClearCachedVersions :: "VersionedDB \<Rightarrow> VersionedDB" where
  "ClearCachedVersions vdb = vdb\<lparr>committedData := emptyCommittedVersions\<rparr>"

definition GetState ::
  "'q CouchDatabase \<Rightarrow> GoLib \<Rightarrow> VersionedDB \<Rightarrow> string \<Rightarrow> string
     \<Rightarrow> (error + VersionedValue option) \<times> VersionedDB" where
  "GetState couch lib vdb namespace key =
     (let compositeKeyStruct = \<lparr>Namespace = namespace, Key = key\<rparr>;
          cached =
            (case committedValues (committedData vdb) compositeKeyStruct of
               None \<Rightarrow> None
             | Some returnValue \<Rightarrow>
                 (case committedVersions (committedData vdb) compositeKeyStruct of
                    None \<Rightarrow> None
                  | Some returnVersion \<Rightarrow>
                      Some \<lparr>Value = returnValue, Version = returnVersion\<rparr>))
      in case cached of
           Some vv \<Rightarrow> (Inr (Some vv), vdb)
         | None \<Rightarrow>
             (let compositeKey = constructCompositeKey namespace key;
                  (couchDoc, rev', err) = ReadDoc couch (dbCalls vdb) compositeKey;
                  vdb' = sent vdb (ReadDoc_call compositeKey)
              in case err of
                   Some e \<Rightarrow> (Inl (StoreError e), vdb')
                 | None \<Rightarrow>
                     (case couchDoc of
                        None \<Rightarrow> (Inr None, vdb')
                      | Some d \<Rightarrow>
                          (case removeDataWrapper lib (JSONValue d) (Attachments d) of
                             Inl p \<Rightarrow> (Inl p, vdb')
                           | Inr (returnValue, returnVersion) \<Rightarrow>
                               (Inr (Some \<lparr>Value = returnValue,
                                           Version = Some returnVersion\<rparr>), vdb')))))"

text \<open>
  \<open>GetVersion\<close>, as written: after a cache miss it returns \<open>nil, nil\<close> when the read
  reported no error, and goes on to read \<open>couchDoc.JSONValue\<close> when it reported one.
\<close>

definition GetVersion ::
  "'q CouchDatabase \<Rightarrow> GoLib \<Rightarrow> VersionedDB \<Rightarrow> string \<Rightarrow> string
     \<Rightarrow> (error + Height option) \<times> VersionedDB" where
  "GetVersion couch lib vdb namespace key =
     (let compositeKey = \<lparr>Namespace = namespace, Key = key\<rparr>
      in case committedVersions (committedData vdb) compositeKey of
           Some returnVersion \<Rightarrow> (Inr returnVersion, vdb)
         | None \<Rightarrow>
             (let couchDBCompositeKey = constructCompositeKey namespace key;
                  (couchDoc, rev', err) = ReadDoc couch (dbCalls vdb) couchDBCompositeKey;
                  vdb' = sent vdb (ReadDoc_call couchDBCompositeKey)
              in if err = None then (Inr None, vdb')
                 else
                   (case couchDoc of
                      None \<Rightarrow> (Inl PanicNilDereference, vdb')
                    | Some d \<Rightarrow>
                        (let (version, err') = json_Unmarshal_Doc lib (JSONValue d)
                         in case err' of
                              Some e \<Rightarrow> (Inl (UnmarshalError e), vdb')
                            | None \<Rightarrow>
                                if version = [] then (Inr None, vdb')
                                else
                                  (let versionArray = strings_Split version (CHR '':'');
                                       blockNum = fst (strconv_ParseUint (versionArray ! 0))
                                   in if length versionArray < 2
                                      then (Inl PanicIndexOutOfRange, vdb')
                                      else
                                        (let txNum =
                                               fst (strconv_ParseUint (versionArray ! 1))
                                         in (Inr (Some (NewHeight blockNum txNum)),
                                             vdb')))))))"

text \<open>
  The first loop of \<open>LoadCommittedValues\<close> and of \<open>LoadCommittedVersions\<close>: every
  requested key gets the \<open>nil\<close> version and the empty revision.
\<close>

fun initKeys :: "CompositeKey list \<Rightarrow> CommittedVersions \<Rightarrow> CommittedVersions" where
  "initKeys [] cd = cd"
| "initKeys (key # keys) cd =
     (let compositeKey = \<lparr>Namespace = Namespace key, Key = Key key\<rparr>
      in initKeys keys
           (cd\<lparr>committedVersions := (committedVersions cd)(compositeKey \<mapsto> None),
               revisionNumbers := (revisionNumbers cd)(compositeKey \<mapsto> [])\<rparr>))"

definition keymapOf :: "CompositeKey list \<Rightarrow> string list" where
  "keymapOf keys = map (\<lambda>key. constructCompositeKey (Namespace key) (Key key)) keys"

text \<open>
  The second loop of \<open>LoadCommittedValues\<close>. \<open>val\<close> is declared as a \<open>nil\<close> slice and
  passed by value to \<open>doc.Doc.UnmarshalJSON\<close>, which cannot assign to it: the slice
  stored in the value map is \<open>nil\<close>. A panic of \<open>splitCompositeKey\<close> or of
  \<open>createVersionFromString\<close> leaves the maps as they are at that point.
\<close>

fun loadValues ::
  "DocMetadata list \<Rightarrow> CommittedVersions \<Rightarrow> (error + unit) \<times> CommittedVersions" where
  "loadValues [] cd = (Inr (), cd)"
| "loadValues (doc # docs) cd =
     (if length (DocMetadata.Version doc) \<noteq> 0 then
        (case splitCompositeKey (DocMetadata.ID doc) of
           Inl p \<Rightarrow> (Inl p, cd)
         | Inr (ns, key) \<Rightarrow>
             (let compositeKey = \<lparr>Namespace = ns, Key = key\<rparr>
              in case createVersionFromString (DocMetadata.Version doc) of
                   Inl p \<Rightarrow> (Inl p, cd)
                 | Inr h \<Rightarrow>
                     (let val = None
                      in loadValues docs
                           (cd\<lparr>committedVersions :=
                                 (committedVersions cd)(compositeKey \<mapsto> Some h),
                               revisionNumbers :=
                                 (revisionNumbers cd)(compositeKey \<mapsto> Rev doc),
                               committedValues :=
                                 (committedValues cd)(compositeKey \<mapsto> val)\<rparr>))))
      else loadValues docs cd)"

fun loadVersions ::
  "DocMetadata list \<Rightarrow> CommittedVersions \<Rightarrow> (error + unit) \<times> CommittedVersions" where
  "loadVersions [] cd = (Inr (), cd)"
| "loadVersions (idVersion # idVersions) cd =
     (if length (DocMetadata.Version idVersion) \<noteq> 0 then
        (case splitCompositeKey (DocMetadata.ID idVersion) of
           Inl p \<Rightarrow> (Inl p, cd)
         | Inr (ns, key) \<Rightarrow>
             (let compositeKey = \<lparr>Namespace = ns, Key = key\<rparr>
              in case createVersionFromString (DocMetadata.Version idVersion) of
                   Inl p \<Rightarrow> (Inl p, cd)
                 | Inr h \<Rightarrow>
                     loadVersions idVersions
                       (cd\<lparr>committedVersions :=
                             (committedVersions cd)(compositeKey \<mapsto> Some h),
                           revisionNumbers :=
                             (revisionNumbers cd)(compositeKey \<mapsto> Rev idVersion)\<rparr>)))
      else loadVersions idVersions cd)"

definition LoadCommittedValues ::
  "'q CouchDatabase \<Rightarrow> VersionedDB \<Rightarrow> CompositeKey list \<Rightarrow> (error + unit) \<times> VersionedDB" where
  "LoadCommittedValues couch vdb keys =
     (let cd = initKeys keys (committedData vdb);
          keymap = keymapOf keys;
          (docs, err) = BatchRetrieve couch (dbCalls vdb) keymap True;
          vdb' = sent vdb (BatchRetrieve_call keymap True);
          (r, cd') = loadValues docs cd
      in (r, vdb'\<lparr>committedData := cd'\<rparr>))"

definition LoadCommittedVersions ::
  "'q CouchDatabase \<Rightarrow> VersionedDB \<Rightarrow> CompositeKey list \<Rightarrow> (error + unit) \<times> VersionedDB" where
  "LoadCommittedVersions couch vdb keys =
     (let cd = initKeys keys (committedData vdb);
          keymap = keymapOf keys;
          (idVersions, err) = BatchRetrieve couch (dbCalls vdb) keymap False;
          vdb' = sent vdb (BatchRetrieve_call keymap False);
          (r, cd') = loadVersions idVersions cd
      in (r, vdb'\<lparr>committedData := cd'\<rparr>))"



subsection \<open>Range scans\<close>

record 'q kvScanner =
  cursor :: int
  namespace :: string
  results :: "'q list"

definition newKVScanner :: "string \<Rightarrow> 'q list \<Rightarrow> 'q kvScanner" where
  "newKVScanner ns queryResults = \<lparr>cursor = - 1, namespace = ns, results = queryResults\<rparr>"

definition querySkip :: int where
  "querySkip = 0"

text \<open>
  \<open>queryLimit\<close> is what \<open>ledgerconfig.GetQueryLimit()\<close> returns. The source reads
  \<open>*queryResult\<close>: a \<open>nil\<close> result without an error panics.
\<close>

definition GetStateRangeScanIterator ::
  "'q CouchDatabase \<Rightarrow> int \<Rightarrow> VersionedDB \<Rightarrow> string \<Rightarrow> string \<Rightarrow> string
     \<Rightarrow> (error + 'q kvScanner) \<times> VersionedDB" where
  "GetStateRangeScanIterator couch queryLimit vdb ns startKey endKey =
     (let compositeStartKey = constructCompositeKey ns startKey;
          compositeEndKey' = compositeEndKey ns endKey;
          (queryResult, err) =
            ReadDocRange couch (dbCalls vdb) compositeStartKey compositeEndKey'
              queryLimit querySkip;
          vdb' = sent vdb
                   (ReadDocRange_call compositeStartKey compositeEndKey' queryLimit querySkip)
      in case err of
           Some e \<Rightarrow> (Inl (StoreError e), vdb')
         | None \<Rightarrow>
             (case queryResult of
                None \<Rightarrow> (Inl PanicNilDereference, vdb')
              | Some rs \<Rightarrow> (Inr (newKVScanner ns rs), vdb')))"

subsection \<open>Savepoints\<close>

definition savepointDocID :: string where
  "savepointDocID = ''statedb_savepoint''"

record couchSavepointData =
  BlockNum :: "64 word"
  TxNum :: "64 word"
  UpdateSeq :: string

text \<open>\<open>json.Marshal\<close> of the savepoint struct: its three fields under their tags.\<close>

definition marshalSavepoint :: "couchSavepointData \<Rightarrow> jsonMap" where
  "marshalSavepoint d =
     [''BlockNum'' \<mapsto> JNumber (decimal (unat (couchSavepointData.BlockNum d))),
      ''TxNum'' \<mapsto> JNumber (decimal (unat (couchSavepointData.TxNum d))),
      ''UpdateSeq'' \<mapsto> JString (couchSavepointData.UpdateSeq d)]"

definition recordSavepoint ::
  "'q CouchDatabase \<Rightarrow> VersionedDB \<Rightarrow> Height option \<Rightarrow> (error + unit) \<times> VersionedDB" where
  "recordSavepoint couch vdb height =
     (let (dbResponse, err) = EnsureFullCommit couch (dbCalls vdb);
          vdb1 = sent vdb EnsureFullCommit_call
      in if err \<noteq> None then (Inl (ErrorsNew ''Failed to perform full commit''), vdb1)
         else
           (case dbResponse of
              None \<Rightarrow> (Inl PanicNilDereference, vdb1)
            | Some resp \<Rightarrow>
                if DBOperationResponse.Ok resp \<noteq> True
                then (Inl (ErrorsNew ''Failed to perform full commit''), vdb1)
                else
                  (let (dbInfo, err2) = GetDatabaseInfo couch (dbCalls vdb1);
                       vdb2 = sent vdb1 GetDatabaseInfo_call
                   in case err2 of
                        Some e \<Rightarrow> (Inl (StoreError e), vdb2)
                      | None \<Rightarrow>
                          (case height of
                             None \<Rightarrow> (Inl PanicNilDereference, vdb2)
                           | Some h \<Rightarrow>
                               (case dbInfo of
                                  None \<Rightarrow> (Inl PanicNilDereference, vdb2)
                                | Some info \<Rightarrow>
                                    (let savepointDoc =
                                           \<lparr>BlockNum = Height.BlockNum h,
                                            TxNum = Height.TxNum h,
                                            UpdateSeq = DBInfo.UpdateSeq info\<rparr>;
                                         savepointDocJSON = marshalSavepoint savepointDoc;
                                         couchDoc = \<lparr>JSONValue = savepointDocJSON,
                                                     Attachments = None\<rparr>;
                                         (rev', err3) =
                                           SaveDoc couch (dbCalls vdb2) savepointDocID []
                                             couchDoc;
                                         vdb3 = sent vdb2
                                                  (SaveDoc_call savepointDocID [] couchDoc)
                                     in case err3 of
                                          Some e \<Rightarrow> (Inl (StoreError e), vdb3)
                                        | None \<Rightarrow> (Inr (), vdb3)))))))"

subsection \<open>Applying a batch of updates\<close>

text \<open>
  Modelled from the spec: \<open>statedb.UpdateBatch\<close> is declared in another package. It
  exposes the touched namespaces and, per namespace, the updates (key and versioned
  value, the value \<open>nil\<close> for a deletion). The batch is given by what the two accessors
  return, in the order in which the source's loops meet them.
\<close>

record UpdateBatch =
  GetUpdatedNamespaces :: "string list"
  GetUpdates :: "string \<Rightarrow> (string \<times> VersionedValue) list"

text \<open>Lines 335 to 358: the keys of the batch without a cached revision.\<close>

definition missingKeysOf :: "CommittedVersions \<Rightarrow> UpdateBatch \<Rightarrow> CompositeKey list" where
  "missingKeysOf cd batch =
     concat (map (\<lambda>ns.
               map (\<lambda>(k, vv). \<lparr>Namespace = ns, Key = k\<rparr>)
                 (filter (\<lambda>(k, vv). revisionNumbers cd \<lparr>Namespace = ns, Key = k\<rparr> = None)
                    (GetUpdates batch ns)))
             (GetUpdatedNamespaces batch))"

text \<open>Lines 374 to 408: the document of one update.\<close>

definition buildCouchDoc ::
  "GoLib \<Rightarrow> CommittedVersions \<Rightarrow> string \<Rightarrow> string \<Rightarrow> VersionedValue \<Rightarrow> error + CouchDoc" where
  "buildCouchDoc lib cd ns k vv =
     (let compositeKey = constructCompositeKey ns k;
          revision = (case revisionNumbers cd \<lparr>Namespace = ns, Key = k\<rparr> of
                        None \<Rightarrow> []
                      | Some r \<Rightarrow> r)
      in case Value vv of
           None \<Rightarrow>
             (case addCouchDBFieldsToValue lib compositeKey revision None ns
                     (VersionedValue.Version vv) True of
                Inl p \<Rightarrow> Inl p
              | Inr j \<Rightarrow> Inr \<lparr>JSONValue = j, Attachments = None\<rparr>)
         | Some bs \<Rightarrow>
             if IsJSON lib bs then
               (case addCouchDBFieldsToValue lib compositeKey revision (Some bs) ns
                       (VersionedValue.Version vv) False of
                  Inl p \<Rightarrow> Inl p
                | Inr j \<Rightarrow> Inr \<lparr>JSONValue = j, Attachments = None\<rparr>)
             else
               (let attachment = \<lparr>AttachmentBytes = Some bs,
                                  ContentType = ''application/octet-stream'',
                                  Name = binaryWrapper\<rparr>;
                    attachments = [] @ [attachment]
                in case addCouchDBFieldsToValue lib compositeKey revision None ns
                          (VersionedValue.Version vv) False of
                     Inl p \<Rightarrow> Inl p
                   | Inr j \<Rightarrow> Inr \<lparr>JSONValue = j, Attachments = Some attachments\<rparr>))"

text \<open>The updates of a batch, each with its namespace, in the order of the loops.\<close>

definition allUpdates :: "UpdateBatch \<Rightarrow> (string \<times> string \<times> VersionedValue) list" where
  "allUpdates batch =
     concat (map (\<lambda>ns. map (\<lambda>(k, vv). (ns, k, vv)) (GetUpdates batch ns))
               (GetUpdatedNamespaces batch))"

fun buildDocs ::
  "GoLib \<Rightarrow> CommittedVersions \<Rightarrow> (string \<times> string \<times> VersionedValue) list
     \<Rightarrow> error + CouchDoc list" where
  "buildDocs lib cd [] = Inr []"
| "buildDocs lib cd ((ns, k, vv) # us) =
     (case buildCouchDoc lib cd ns k vv of
        Inl p \<Rightarrow> Inl p
      | Inr couchDoc \<Rightarrow>
          (case buildDocs lib cd us of
             Inl p \<Rightarrow> Inl p
           | Inr couchDocs \<Rightarrow> Inr (couchDoc # couchDocs)))"

text \<open>
  The \<open>fmt.Sprintf\<close> of line 426: \<open>%v\<close> and \<open>%s\<close> print a string operand as it is.
\<close>

definition saveErrorString :: "BatchUpdateResponse \<Rightarrow> string" where
  "saveErrorString respDoc =
     ''Error occurred while saving document ID = '' @ BatchUpdateResponse.ID respDoc
       @ ''  Error: '' @ Error respDoc @ ''  Reason: '' @ Reason respDoc @ [CHR 0x0A]"

text \<open>Lines 416 to 438: the bulk write and the look at its response.\<close>

definition writeDocs ::
  "'q CouchDatabase \<Rightarrow> GoLib \<Rightarrow> VersionedDB \<Rightarrow> CouchDoc list
     \<Rightarrow> (error + unit) \<times> VersionedDB" where
  "writeDocs couch lib vdb batchUpdateDocs =
     (if length batchUpdateDocs > 0 then
        (let (batchUpdateResp, err) =
               BatchUpdateDocuments couch (dbCalls vdb) batchUpdateDocs;
             vdb' = sent vdb (BatchUpdateDocuments_call batchUpdateDocs)
         in case err of
              Some e \<Rightarrow> (Inl (StoreError e), vdb')
            | None \<Rightarrow>
                (case find (\<lambda>respDoc. BatchUpdateResponse.Ok respDoc \<noteq> True)
                        batchUpdateResp of
                   Some respDoc \<Rightarrow>
                     (let errorString = saveErrorString respDoc
                      in (Inl (fmt_Errorf lib errorString), vdb'))
                 | None \<Rightarrow> (Inr (), vdb')))
      else (Inr (), vdb))"

text \<open>Lines 360 to 367: the revisions of the missing keys are loaded, if there are any.\<close>

definition loadMissing ::
  "'q CouchDatabase \<Rightarrow> VersionedDB \<Rightarrow> UpdateBatch \<Rightarrow> (error + unit) \<times> VersionedDB" where
  "loadMissing couch vdb batch =
     (let missingKeys = missingKeysOf (committedData vdb) batch
      in if length missingKeys > 0 then LoadCommittedVersions couch vdb missingKeys
         else (Inr (), vdb))"

text \<open>
  \<open>ApplyUpdates\<close>. \<open>ClearCachedVersions\<close> is deferred in its first statement, so it
  runs on every way out, a panic included.
\<close>

definition ApplyUpdates ::
  "'q CouchDatabase \<Rightarrow> GoLib \<Rightarrow> VersionedDB \<Rightarrow> UpdateBatch \<Rightarrow> Height option
     \<Rightarrow> (error + unit) \<times> VersionedDB" where
  "ApplyUpdates couch lib vdb batch height =
     (case loadMissing couch vdb batch of
        (Inl p, vdb1) \<Rightarrow> (Inl p, ClearCachedVersions vdb1)
      | (Inr u, vdb1) \<Rightarrow>
          (case buildDocs lib (committedData vdb1) (allUpdates batch) of
             Inl p \<Rightarrow> (Inl p, ClearCachedVersions vdb1)
           | Inr batchUpdateDocs \<Rightarrow>
               (case writeDocs couch lib vdb1 batchUpdateDocs of
                  (Inl e, vdb2) \<Rightarrow> (Inl e, ClearCachedVersions vdb2)
                | (Inr u', vdb2) \<Rightarrow>
                    (let (r, vdb3) = recordSavepoint couch vdb2 height
                     in (r, ClearCachedVersions vdb3)))))"

subsection \<open>Reading the list of calls\<close>

definition callsSince :: "VersionedDB \<Rightarrow> VersionedDB \<Rightarrow> call list" where
  "callsSince vdb vdb' = drop (length (dbCalls vdb)) (dbCalls vdb')"

fun isSaveDoc :: "call \<Rightarrow> bool" where
  "isSaveDoc (SaveDoc_call i r d) = True"
| "isSaveDoc c = False"

fun isBatchUpdate :: "call \<Rightarrow> bool" where
  "isBatchUpdate (BatchUpdateDocuments_call ds) = True"
| "isBatchUpdate c = False"


text \<open>What a document carries.\<close>

definition carriesInlineData :: "CouchDoc \<Rightarrow> bool" where
  "carriesInlineData d = (JSONValue d dataWrapper \<noteq> None)"

definition carriesAttachment :: "CouchDoc \<Rightarrow> bool" where
  "carriesAttachment d =
     (case Attachments d of
        None \<Rightarrow> False
      | Some as \<Rightarrow> list_ex (\<lambda>a. Name a = binaryWrapper) as)"

subsection \<open>A store and a library for the examples\<close>

text \<open>A store that holds no document and answers every call with success.\<close>

definition quietStore :: "unit CouchDatabase" where
  "quietStore =
     \<lparr>ReadDoc = (\<lambda>h k. (None, [], None)),
      ReadDocRange = (\<lambda>h s e l k. (Some [], None)),
      BatchRetrieve = (\<lambda>h ks b. ([], None)),
      BatchUpdateDocuments =
        (\<lambda>h ds. (map (\<lambda>d. \<lparr>BatchUpdateResponse.ID = [], Error = [], Reason = [], BatchUpdateResponse.Ok = True\<rparr>) ds, None)),
      EnsureFullCommit = (\<lambda>h. (Some \<lparr>DBOperationResponse.Ok = True\<rparr>, None)),
      GetDatabaseInfo = (\<lambda>h. (Some \<lparr>DBInfo.UpdateSeq = ''7''\<rparr>, None)),
      SaveDoc = (\<lambda>h i r d. (''1-a'', None))\<rparr>"

text \<open>
  A library for the examples: of all byte strings it takes \<open>{}\<close> alone for JSON, and it
  prints nothing for what the model leaves to it.
\<close>

definition exampleLib :: GoLib where
  "exampleLib =
     \<lparr>IsJSON = (\<lambda>s. s = ''{}''),
      json_Marshal = (\<lambda>v. case v of Some (JString s) \<Rightarrow> [CHR 0x22] @ s @ [CHR 0x22]
                                   | _ \<Rightarrow> ''null''),
      json_Unmarshal_Doc =
        (\<lambda>m. case m ''version'' of Some (JString s) \<Rightarrow> (s, None) | _ \<Rightarrow> ([], None)),
      fmt_compound = (\<lambda>v. ''[]''),
      json_Valid = (\<lambda>s. s = ''{}''),
      fmt_directive = (\<lambda>s. [])\<rparr>"

definition freshDB :: VersionedDB where
  "freshDB = \<lparr>dbCalls = [], committedData = emptyCommittedVersions\<rparr>"

definition threeUpdates :: UpdateBatch where
  "threeUpdates =
     \<lparr>GetUpdatedNamespaces = [''ns''],
      GetUpdates = (\<lambda>ns.
        [(''j'', \<lparr>Value = Some ''{}'', VersionedValue.Version = Some (NewHeight 1 1)\<rparr>),
         (''b'', \<lparr>Value = Some [CHR 0x00, CHR 0x01, CHR 0x02],
                  VersionedValue.Version = Some (NewHeight 1 1)\<rparr>),
         (''t'', \<lparr>Value = None, VersionedValue.Version = Some (NewHeight 1 1)\<rparr>)])\<rparr>"

definition threeDocs :: "CouchDoc list" where
  "threeDocs =
     projr (buildDocs exampleLib
              (committedData (snd (loadMissing quietStore freshDB threeUpdates)))
              (allUpdates threeUpdates))"

text \<open>A store whose bulk write reports a conflict on a key with a \<open>%\<close> in it.\<close>

definition percentStore :: "unit CouchDatabase" where
  "percentStore =
     quietStore\<lparr>BatchUpdateDocuments := \<lambda>h ds.
       ([\<lparr>BatchUpdateResponse.ID = ''ns'' @ [CHR 0x00] @ ''k%d'', Error = ''conflict'',
          Reason = ''100% full'', BatchUpdateResponse.Ok = False\<rparr>], None)\<rparr>"

definition percentUpdate :: UpdateBatch where
  "percentUpdate =
     \<lparr>GetUpdatedNamespaces = [''ns''],
      GetUpdates = (\<lambda>ns. [(''k%d'', \<lparr>Value = Some ''{}'',
                                     VersionedValue.Version = Some (NewHeight 1 1)\<rparr>)])\<rparr>"

text \<open>
  Modelled from the spec: \<open>couchdb.IsJSON\<close> is declared in another package. The spec
  has a value inlined when it parses as a JSON value: the bytes that \<open>IsJSON\<close>
  accepts are a JSON text. \<open>IsJSON_sound\<close> says so of the values of a batch.
\<close>

definition IsJSON_sound :: "GoLib \<Rightarrow> UpdateBatch \<Rightarrow> bool" where
  "IsJSON_sound lib batch =
     list_all (\<lambda>(ns, k, vv). case Value vv of
                                None \<Rightarrow> True
                              | Some bs \<Rightarrow> IsJSON lib bs \<longrightarrow> json_Valid lib bs)
       (allUpdates batch)"

subsection \<open>What the store answers during a read of several keys\<close>






section \<open>Properties\<close>

subsection \<open>Key codec\<close>

lemma bytes_Index_sep:
  "CHR 0x00 \<notin> set ns \<Longrightarrow> bytes_Index (ns @ CHR 0x00 # key) [CHR 0x00] = Some (length ns)"
  by (induction ns) auto

text \<open>
  C6. Decoding an encoded (namespace, key) pair gives the pair back whenever the
  namespace holds no separator byte; the key may hold any bytes, the separator included.
\<close>

theorem split_construct_roundtrip:
  assumes "CHR 0x00 \<notin> set ns"
  shows "splitCompositeKey (constructCompositeKey ns key) = Inr (ns, key)"
  using bytes_Index_sep [OF assms, of key]
  by (simp add: splitCompositeKey_def constructCompositeKey_def compositeKeySep_def
      bytes_SplitN2_def)

theorem split_construct_roundtrip_witness:
  "CHR 0x00 \<notin> set ''ns'' \<and>
   splitCompositeKey (constructCompositeKey ''ns'' [CHR ''a'', CHR 0x00, CHR ''b''])
     = Inr (''ns'', [CHR ''a'', CHR 0x00, CHR ''b''])"
  using split_construct_roundtrip [of "''ns''" "[CHR ''a'', CHR 0x00, CHR ''b'']"]
  by simp

lemma compositeEndKey_empty: "compositeEndKey ns [] = ns @ [CHR 0x01]"
  by (simp add: compositeEndKey_def constructCompositeKey_def compositeKeySep_def
      lastKeyIndicator_def Let_def list_update_append)

lemma bytes_less_append_same:
  "bytes_less (ns @ xs) (ns @ ys) = bytes_less xs ys"
  by (induction ns) auto

lemma bytes_less_end_bound_next:
  "bytes_less ns ns' \<Longrightarrow> CHR 0x00 \<notin> set ns' \<Longrightarrow>
   bytes_less (ns @ [CHR 0x01]) (ns' @ CHR 0x00 # key')"
proof (induction ns ns' rule: bytes_less.induct)
  case (2 y ys)
  then have "y \<noteq> CHR 0x00" by auto
  then have "y = CHR 0x01 \<or> (1::nat) < of_char y"
    by (cases y) auto
  then show ?case
    by (cases ys) auto
qed auto

lemma bytes_less_append: "bytes_less xs ys \<Longrightarrow> bytes_less xs (ys @ zs)"
  by (induction xs ys rule: bytes_less.induct) auto

text \<open>
  C7. With an empty end key, \<open>GetStateRangeScanIterator\<close> hands the store the
  namespace followed by the byte 0x01 as end key. In byte-wise lexicographic order this
  bound comes strictly after the encoded form of every key of the namespace, and strictly
  before every encoded key of a separator-free namespace that sorts after the namespace,
  and of any namespace that sorts after the bound.
\<close>

theorem range_end_bound:
  "dbCalls (snd (GetStateRangeScanIterator couch queryLimit vdb ns startKey []))
     = dbCalls vdb @ [ReadDocRange_call (constructCompositeKey ns startKey)
                        (compositeEndKey ns []) queryLimit 0]
   \<and> compositeEndKey ns [] = ns @ [CHR 0x01]
   \<and> bytes_less (constructCompositeKey ns key) (compositeEndKey ns [])
   \<and> (bytes_less ns ns' \<and> CHR 0x00 \<notin> set ns' \<longrightarrow>
        bytes_less (compositeEndKey ns []) (constructCompositeKey ns' key'))
   \<and> (bytes_less (compositeEndKey ns []) ns' \<longrightarrow>
        bytes_less (compositeEndKey ns []) (constructCompositeKey ns' key'))"
proof -
  have a: "dbCalls (snd (GetStateRangeScanIterator couch queryLimit vdb ns startKey []))
     = dbCalls vdb @ [ReadDocRange_call (constructCompositeKey ns startKey)
                        (compositeEndKey ns []) queryLimit 0]"
    by (simp add: GetStateRangeScanIterator_def Let_def sent_def querySkip_def
        split: prod.splits option.splits)
  have b: "bytes_less (constructCompositeKey ns key) (ns @ [CHR 0x01])"
    by (simp add: constructCompositeKey_def compositeKeySep_def bytes_less_append_same)
  have c: "bytes_less ns ns' \<and> CHR 0x00 \<notin> set ns' \<longrightarrow>
        bytes_less (ns @ [CHR 0x01]) (constructCompositeKey ns' key')"
    using bytes_less_end_bound_next [of ns ns' key']
    by (simp add: constructCompositeKey_def compositeKeySep_def)
  have d: "bytes_less (ns @ [CHR 0x01]) ns' \<longrightarrow>
        bytes_less (ns @ [CHR 0x01]) (constructCompositeKey ns' key')"
    using bytes_less_append [of "ns @ [CHR 0x01]" ns' "CHR 0x00 # key'"]
    by (simp add: constructCompositeKey_def compositeKeySep_def)
  show ?thesis
    using a b c d by (simp add: compositeEndKey_empty)
qed

theorem range_end_bound_witness:
  "bytes_less (constructCompositeKey ''ab'' ''zz'') (compositeEndKey ''ab'' [])
   \<and> bytes_less ''ab'' ''abc'' \<and> CHR 0x00 \<notin> set ''abc''
   \<and> bytes_less (compositeEndKey ''ab'' []) (constructCompositeKey ''abc'' [])
   \<and> bytes_less (compositeEndKey ''ab'' []) ''b''
   \<and> bytes_less (compositeEndKey ''ab'' []) (constructCompositeKey ''b'' ''k'')"
  using range_end_bound [of quietStore 10 freshDB "''ab''" "[]" "''zz''" "''abc''" "[]"]
    range_end_bound [of quietStore 10 freshDB "''ab''" "[]" "''zz''" "''b''" "''k''"]
  by (simp add: compositeEndKey_empty)

text \<open>
  The namespace \<open>a\<close> followed by the separator sorts after \<open>a\<close> and is no
  separator-free namespace: its encoded keys are keys of \<open>a\<close> and sort before the bound
  of \<open>a\<close>.
\<close>

lemma range_end_bound_separator_inside:
  "bytes_less ''a'' [CHR ''a'', CHR 0x00]
   \<and> \<not> bytes_less (compositeEndKey ''a'' []) (constructCompositeKey [CHR ''a'', CHR 0x00] [])"
  by (simp add: compositeEndKey_empty constructCompositeKey_def compositeKeySep_def)

subsection \<open>Version strings\<close>

lemma strings_Split_no_sep: "sep \<notin> set s \<Longrightarrow> strings_Split s sep = [s]"
  by (induction s) auto

lemma createVersionFromString_no_colon:
  "CHR '':'' \<notin> set s \<Longrightarrow> createVersionFromString s = Inl PanicIndexOutOfRange"
  by (simp add: createVersionFromString_def strings_Split_no_sep Let_def)

lemma removeDataWrapper_absent_version:
  "isNil (wrappedValue ''version'') \<Longrightarrow>
   removeDataWrapper lib wrappedValue attachments = Inl PanicIndexOutOfRange"
  by (auto simp: removeDataWrapper_def isNil_def fmt_Sprintf_s_def Let_def)

text \<open>
  C9. Decoding is not total: a version string without \<open>:\<close> (here \<open>12\<close>) makes
  \<open>createVersionFromString\<close> panic on \<open>versionArray[1]\<close>, and a document without a
  version field makes \<open>removeDataWrapper\<close> panic in the same way. A version string with
  a \<open>:\<close> whose numbers do not parse gives the height (0, 0).
\<close>

theorem version_without_colon_panics:
  "createVersionFromString ''12'' = Inl PanicIndexOutOfRange
   \<and> removeDataWrapper exampleLib [''_id'' \<mapsto> JString ''k''] None = Inl PanicIndexOutOfRange
   \<and> createVersionFromString ''x:y'' = Inr (NewHeight 0 0)
   \<and> createVersionFromString ''3:4'' = Inr (NewHeight 3 4)"
  by (simp add: createVersionFromString_def removeDataWrapper_def isNil_def
      fmt_Sprintf_s_def Let_def strconv_ParseUint_def cutoff_def)

lemma overflow_version:
  "createVersionFromString ''1:18446744073709551616'' = Inr (NewHeight 1 maxUint64)"
  by (simp add: createVersionFromString_def Let_def strconv_ParseUint_def cutoff_def maxUint64_def)

subsection \<open>Point reads\<close>

lemma GetVersion_miss_no_error:
  assumes "committedVersions (committedData vdb) \<lparr>Namespace = ns, Key = key\<rparr> = None"
    and "ReadDoc couch (dbCalls vdb) (constructCompositeKey ns key) = (couchDoc, r, None)"
  shows "fst (GetVersion couch lib vdb ns key) = Inr None"
  using assms by (simp add: GetVersion_def Let_def)

lemma GetVersion_miss_error:
  assumes "committedVersions (committedData vdb) \<lparr>Namespace = ns, Key = key\<rparr> = None"
    and "ReadDoc couch (dbCalls vdb) (constructCompositeKey ns key) = (None, r, Some e)"
  shows "fst (GetVersion couch lib vdb ns key) = Inl PanicNilDereference"
  using assms by (simp add: GetVersion_def Let_def)

lemma GetState_miss_error:
  assumes "committedValues (committedData vdb) \<lparr>Namespace = ns, Key = key\<rparr> = None"
    and "ReadDoc couch (dbCalls vdb) (constructCompositeKey ns key) = (couchDoc, r, Some e)"
  shows "fst (GetState couch lib vdb ns key) = Inl (StoreError e)"
  using assms by (simp add: GetState_def Let_def)

lemma GetState_miss_absent:
  assumes "committedValues (committedData vdb) \<lparr>Namespace = ns, Key = key\<rparr> = None"
    and "ReadDoc couch (dbCalls vdb) (constructCompositeKey ns key) = (None, r, None)"
  shows "fst (GetState couch lib vdb ns key) = Inr None"
  using assms by (simp add: GetState_def Let_def)

text \<open>
  C2. \<open>GetVersion\<close> does not follow \<open>GetState\<close> after a cache miss. The store holds
  a document of version \<open>1:2\<close> and the read succeeds: \<open>GetState\<close> returns the height
  (1, 2), \<open>GetVersion\<close> returns no height. The read fails with an error: \<open>GetState\<close>
  returns that error, \<open>GetVersion\<close> panics on the \<open>nil\<close> document.
\<close>

theorem GetVersion_inverts_read_result:
  "fst (GetVersion
         (quietStore\<lparr>ReadDoc := \<lambda>h k.
            (Some \<lparr>JSONValue = [''version'' \<mapsto> JString ''1:2'', ''data'' \<mapsto> JString ''v''],
                   Attachments = None\<rparr>, ''1-a'', None)\<rparr>)
         exampleLib freshDB ''ns'' ''k'') = Inr None
   \<and> fst (GetState
         (quietStore\<lparr>ReadDoc := \<lambda>h k.
            (Some \<lparr>JSONValue = [''version'' \<mapsto> JString ''1:2'', ''data'' \<mapsto> JString ''v''],
                   Attachments = None\<rparr>, ''1-a'', None)\<rparr>)
         exampleLib freshDB ''ns'' ''k'')
       = Inr (Some \<lparr>Value = Some [CHR 0x22, CHR ''v'', CHR 0x22],
                     Version = Some (NewHeight 1 2)\<rparr>)
   \<and> fst (GetVersion (quietStore\<lparr>ReadDoc := \<lambda>h k. (None, [], Some ''timeout'')\<rparr>)
         exampleLib freshDB ''ns'' ''k'') = Inl PanicNilDereference
   \<and> fst (GetState (quietStore\<lparr>ReadDoc := \<lambda>h k. (None, [], Some ''timeout'')\<rparr>)
         exampleLib freshDB ''ns'' ''k'') = Inl (StoreError ''timeout'')"
  by (simp add: GetVersion_def GetState_def quietStore_def exampleLib_def freshDB_def
      emptyCommittedVersions_def removeDataWrapper_def isNil_def dataWrapper_def
      fmt_Sprintf_s_def Let_def strconv_ParseUint_def cutoff_def)

subsection \<open>Loading the cache\<close>

lemma loadValues_binds_nil:
  "loadValues docs cd = (r, cd') \<Longrightarrow> committedValues cd' k = Some v \<Longrightarrow>
   v = None \<or> committedValues cd k = Some v"
proof (induction docs arbitrary: cd)
  case Nil
  then show ?case by simp
next
  case (Cons doc docs)
  show ?case
  proof (cases "length (DocMetadata.Version doc) \<noteq> 0")
    case False
    with Cons show ?thesis by simp
  next
    case True
    show ?thesis
    proof (cases "splitCompositeKey (DocMetadata.ID doc)")
      case (Inl p)
      with True Cons.prems show ?thesis by simp
    next
      case (Inr nk)
      obtain ns key where nk: "nk = (ns, key)" by (cases nk)
      show ?thesis
      proof (cases "createVersionFromString (DocMetadata.Version doc)")
        case (Inl p)
        with True Inr nk Cons.prems show ?thesis by simp
      next
        case h: (Inr h)
        from True Inr nk h Cons.prems(1)
        have "loadValues docs
                (cd\<lparr>committedVersions :=
                      (committedVersions cd)(\<lparr>Namespace = ns, Key = key\<rparr> \<mapsto> Some h),
                    revisionNumbers :=
                      (revisionNumbers cd)(\<lparr>Namespace = ns, Key = key\<rparr> \<mapsto> Rev doc),
                    committedValues :=
                      (committedValues cd)(\<lparr>Namespace = ns, Key = key\<rparr> \<mapsto> None)\<rparr>)
              = (r, cd')"
          by (simp add: Let_def)
        from Cons.IH [OF this Cons.prems(2)] show ?thesis
          by (auto split: if_splits)
      qed
    qed
  qed
qed

lemma initKeys_committedValues: "committedValues (initKeys keys cd) = committedValues cd"
  by (induction keys arbitrary: cd) (simp_all add: Let_def)

lemma LoadCommittedValues_binds_nil:
  assumes "committedValues (committedData (snd (LoadCommittedValues couch vdb keys))) k = Some v"
  shows "v = None \<or> committedValues (committedData vdb) k = Some v"
proof -
  obtain docs err where b: "BatchRetrieve couch (dbCalls vdb) (keymapOf keys) True = (docs, err)"
    by (cases "BatchRetrieve couch (dbCalls vdb) (keymapOf keys) True")
  obtain r cd' where l: "loadValues docs (initKeys keys (committedData vdb)) = (r, cd')"
    by (cases "loadValues docs (initKeys keys (committedData vdb))")
  from assms b l have "committedValues cd' k = Some v"
    by (simp add: LoadCommittedValues_def Let_def)
  from loadValues_binds_nil [OF l this] show ?thesis
    by (simp add: initKeys_committedValues)
qed

text \<open>
  C3. \<open>LoadCommittedValues\<close> does not store the document's value: the store reports
  the key \<open>k\<close> of namespace \<open>ns\<close> with version \<open>1:2\<close> and a body, and afterwards the
  value map binds the key to the \<open>nil\<close> slice; the cache hit of \<open>GetState\<close> returns
  the \<open>nil\<close> value with the height (1, 2).
\<close>

theorem LoadCommittedValues_stores_nil:
  "committedValues (committedData (snd (LoadCommittedValues
       (quietStore\<lparr>BatchRetrieve := \<lambda>h ks b.
          ([\<lparr>DocMetadata.ID = ''ns'' @ [CHR 0x00] @ ''k'', Rev = ''1-a'',
             DocMetadata.Version = ''1:2'', Doc = ''{}''\<rparr>], None)\<rparr>)
       freshDB [\<lparr>Namespace = ''ns'', Key = ''k''\<rparr>])))
     \<lparr>Namespace = ''ns'', Key = ''k''\<rparr> = Some None
   \<and> fst (GetState quietStore exampleLib
       (snd (LoadCommittedValues
          (quietStore\<lparr>BatchRetrieve := \<lambda>h ks b.
             ([\<lparr>DocMetadata.ID = ''ns'' @ [CHR 0x00] @ ''k'', Rev = ''1-a'',
                DocMetadata.Version = ''1:2'', Doc = ''{}''\<rparr>], None)\<rparr>)
          freshDB [\<lparr>Namespace = ''ns'', Key = ''k''\<rparr>]))
       ''ns'' ''k'')
     = Inr (Some \<lparr>Value = None, Version = Some (NewHeight 1 2)\<rparr>)"
  by (simp add: LoadCommittedValues_def GetState_def quietStore_def freshDB_def
      emptyCommittedVersions_def keymapOf_def constructCompositeKey_def compositeKeySep_def
      sent_def splitCompositeKey_def bytes_SplitN2_def createVersionFromString_def
      Let_def strconv_ParseUint_def cutoff_def)

subsection \<open>Savepoints\<close>

lemma callsSince_sent [simp]: "callsSince vdb (sent vdb c) = [c]"
  by (simp add: callsSince_def sent_def)

lemma callsSince_sent2 [simp]: "callsSince vdb (sent (sent vdb c) c') = [c, c']"
  by (simp add: callsSince_def sent_def)

lemma callsSince_sent3 [simp]: "callsSince vdb (sent (sent (sent vdb c) c') c'') = [c, c', c'']"
  by (simp add: callsSince_def sent_def)

lemma dbCalls_sent [simp]: "dbCalls (sent vdb c) = dbCalls vdb @ [c]"
  by (simp add: sent_def)

lemma committedData_sent [simp]: "committedData (sent vdb c) = committedData vdb"
  by (simp add: sent_def)

lemma recordSavepoint_flush_failed:
  assumes "EnsureFullCommit couch (dbCalls vdb) = (dbResponse, err)"
    and "err \<noteq> None \<or> (\<exists>resp. dbResponse = Some resp \<and> \<not> DBOperationResponse.Ok resp)"
  shows "recordSavepoint couch vdb height
           = (Inl (ErrorsNew ''Failed to perform full commit''), sent vdb EnsureFullCommit_call)"
  using assms by (auto simp: recordSavepoint_def Let_def)

lemma recordSavepoint_calls:
  "\<exists>cs. callsSince vdb (snd (recordSavepoint couch vdb height)) = EnsureFullCommit_call # cs
      \<and> dbCalls (snd (recordSavepoint couch vdb height))
          = dbCalls vdb @ EnsureFullCommit_call # cs
      \<and> (list_ex isSaveDoc cs \<longrightarrow>
            (\<exists>resp. EnsureFullCommit couch (dbCalls vdb) = (Some resp, None)
                     \<and> DBOperationResponse.Ok resp))"
  by (auto simp: recordSavepoint_def Let_def split: prod.splits option.splits)

text \<open>
  C1. The first call \<open>recordSavepoint\<close> sends to the store is the flush
  (\<open>EnsureFullCommit\<close>). When the flush returns an error or a response that is not ok,
  \<open>recordSavepoint\<close> returns an error and the flush is the only call it has sent: no
  savepoint document is written. Whenever a \<open>SaveDoc\<close> call is among the calls sent, it
  comes after the flush, and the flush returned an ok response and no error.
\<close>

theorem recordSavepoint_flush_fences_save:
  "take 1 (callsSince vdb (snd (recordSavepoint couch vdb height))) = [EnsureFullCommit_call]
   \<and> dbCalls (snd (recordSavepoint couch vdb height))
        = dbCalls vdb @ callsSince vdb (snd (recordSavepoint couch vdb height))
   \<and> (snd (EnsureFullCommit couch (dbCalls vdb)) \<noteq> None
        \<or> (\<exists>resp. fst (EnsureFullCommit couch (dbCalls vdb)) = Some resp
                   \<and> \<not> DBOperationResponse.Ok resp)
       \<longrightarrow> fst (recordSavepoint couch vdb height)
             = Inl (ErrorsNew ''Failed to perform full commit'')
           \<and> callsSince vdb (snd (recordSavepoint couch vdb height))
               = [EnsureFullCommit_call])
   \<and> (list_ex isSaveDoc (tl (callsSince vdb (snd (recordSavepoint couch vdb height))))
       \<longrightarrow> (\<exists>resp. EnsureFullCommit couch (dbCalls vdb) = (Some resp, None)
                    \<and> DBOperationResponse.Ok resp))"
proof -
  obtain dbResponse err where f: "EnsureFullCommit couch (dbCalls vdb) = (dbResponse, err)"
    by (cases "EnsureFullCommit couch (dbCalls vdb)")
  obtain cs where cs:
    "callsSince vdb (snd (recordSavepoint couch vdb height)) = EnsureFullCommit_call # cs"
    "dbCalls (snd (recordSavepoint couch vdb height)) = dbCalls vdb @ EnsureFullCommit_call # cs"
    "list_ex isSaveDoc cs \<longrightarrow>
       (\<exists>resp. EnsureFullCommit couch (dbCalls vdb) = (Some resp, None)
                \<and> DBOperationResponse.Ok resp)"
    using recordSavepoint_calls [of vdb couch height] by blast
  have "err \<noteq> None \<or> (\<exists>resp. dbResponse = Some resp \<and> \<not> DBOperationResponse.Ok resp)
        \<longrightarrow> recordSavepoint couch vdb height
             = (Inl (ErrorsNew ''Failed to perform full commit''),
                sent vdb EnsureFullCommit_call)"
    using recordSavepoint_flush_failed [OF f] by blast
  with f cs show ?thesis by auto
qed

theorem recordSavepoint_flush_fences_save_witness:
  "fst (recordSavepoint (quietStore\<lparr>EnsureFullCommit := \<lambda>h. (None, Some ''timeout'')\<rparr>)
          freshDB (Some (NewHeight 10 2)))
     = Inl (ErrorsNew ''Failed to perform full commit'')
   \<and> callsSince freshDB
        (snd (recordSavepoint (quietStore\<lparr>EnsureFullCommit := \<lambda>h. (None, Some ''timeout'')\<rparr>)
                freshDB (Some (NewHeight 10 2))))
     = [EnsureFullCommit_call]
   \<and> list_ex isSaveDoc
        (tl (callsSince freshDB (snd (recordSavepoint quietStore freshDB (Some (NewHeight 10 2))))))
   \<and> EnsureFullCommit quietStore (dbCalls freshDB) = (Some \<lparr>DBOperationResponse.Ok = True\<rparr>, None)"
  using recordSavepoint_flush_fences_save
          [of freshDB "quietStore\<lparr>EnsureFullCommit := \<lambda>h. (None, Some ''timeout'')\<rparr>"
              "Some (NewHeight 10 2)"]
        recordSavepoint_flush_fences_save [of freshDB quietStore "Some (NewHeight 10 2)"]
  by (simp add: recordSavepoint_def quietStore_def freshDB_def Let_def)

subsection \<open>Applying a batch\<close>

lemma committedData_Clear [simp]:
  "committedData (ClearCachedVersions vdb) = emptyCommittedVersions"
  by (simp add: ClearCachedVersions_def)

lemma dbCalls_Clear [simp]: "dbCalls (ClearCachedVersions vdb) = dbCalls vdb"
  by (simp add: ClearCachedVersions_def)

lemma callsSince_Clear [simp]:
  "callsSince vdb (ClearCachedVersions vdb') = callsSince vdb vdb'"
  by (simp add: callsSince_def)

lemma ApplyUpdates_clears_cache:
  "committedData (snd (ApplyUpdates couch lib vdb batch height)) = emptyCommittedVersions"
  by (simp add: ApplyUpdates_def Let_def split: prod.splits sum.splits)

lemma allUpdates_empty_iff:
  "allUpdates batch = [] \<longleftrightarrow> (\<forall>ns \<in> set (GetUpdatedNamespaces batch). GetUpdates batch ns = [])"
  by (auto simp: allUpdates_def)

lemma missingKeysOf_empty:
  "allUpdates batch = [] \<Longrightarrow> missingKeysOf cd batch = []"
  by (simp add: allUpdates_empty_iff missingKeysOf_def)

lemma ApplyUpdates_no_updates:
  assumes "allUpdates batch = []"
  shows "ApplyUpdates couch lib vdb batch height
           = (fst (recordSavepoint couch vdb height),
              ClearCachedVersions (snd (recordSavepoint couch vdb height)))"
  using assms
  by (simp add: ApplyUpdates_def loadMissing_def missingKeysOf_empty writeDocs_def Let_def
      split: prod.splits)

lemma recordSavepoint_success:
  assumes "EnsureFullCommit couch (dbCalls vdb) = (Some resp, None)"
    and "DBOperationResponse.Ok resp"
    and "GetDatabaseInfo couch (dbCalls vdb @ [EnsureFullCommit_call]) = (Some info, None)"
  shows "callsSince vdb (snd (recordSavepoint couch vdb (Some h)))
           = [EnsureFullCommit_call, GetDatabaseInfo_call,
              SaveDoc_call savepointDocID []
                \<lparr>JSONValue = marshalSavepoint
                    \<lparr>BlockNum = Height.BlockNum h, TxNum = Height.TxNum h,
                     UpdateSeq = DBInfo.UpdateSeq info\<rparr>,
                 Attachments = None\<rparr>]"
  using assms by (simp add: recordSavepoint_def Let_def split: prod.splits option.splits)

lemma recordSavepoint_no_bulk_write:
  "\<not> list_ex isBatchUpdate (callsSince vdb (snd (recordSavepoint couch vdb height)))"
  by (simp add: recordSavepoint_def Let_def split: prod.splits option.splits)

text \<open>
  C10. For a batch without updates \<open>ApplyUpdates\<close> sends no bulk write; it runs
  \<open>recordSavepoint\<close> for the height on the store as it is, returns its result, and the
  cache is empty afterwards. When the flush and the database info succeed, the calls sent
  are the flush, the info and the write of the savepoint document of that height.
\<close>

theorem ApplyUpdates_empty_batch_records_savepoint:
  assumes "allUpdates batch = []"
  shows "ApplyUpdates couch lib vdb batch (Some h)
           = (fst (recordSavepoint couch vdb (Some h)),
              ClearCachedVersions (snd (recordSavepoint couch vdb (Some h))))
         \<and> \<not> list_ex isBatchUpdate
               (callsSince vdb (snd (ApplyUpdates couch lib vdb batch (Some h))))
         \<and> committedData (snd (ApplyUpdates couch lib vdb batch (Some h)))
             = emptyCommittedVersions
         \<and> ((\<exists>resp. EnsureFullCommit couch (dbCalls vdb) = (Some resp, None)
                     \<and> DBOperationResponse.Ok resp)
              \<and> GetDatabaseInfo couch (dbCalls vdb @ [EnsureFullCommit_call]) = (Some info, None)
             \<longrightarrow> callsSince vdb (snd (ApplyUpdates couch lib vdb batch (Some h)))
                   = [EnsureFullCommit_call, GetDatabaseInfo_call,
                      SaveDoc_call savepointDocID []
                        \<lparr>JSONValue = marshalSavepoint
                            \<lparr>BlockNum = Height.BlockNum h, TxNum = Height.TxNum h,
                             UpdateSeq = DBInfo.UpdateSeq info\<rparr>,
                         Attachments = None\<rparr>])"
proof -
  note e = ApplyUpdates_no_updates [OF assms, of couch lib vdb "Some h"]
  have a: "\<not> list_ex isBatchUpdate
               (callsSince vdb (snd (ApplyUpdates couch lib vdb batch (Some h))))"
    using recordSavepoint_no_bulk_write [of vdb couch "Some h"] by (simp add: e)
  have b: "committedData (snd (ApplyUpdates couch lib vdb batch (Some h)))
             = emptyCommittedVersions"
    by (rule ApplyUpdates_clears_cache)
  have c: "(\<exists>resp. EnsureFullCommit couch (dbCalls vdb) = (Some resp, None)
                     \<and> DBOperationResponse.Ok resp)
              \<and> GetDatabaseInfo couch (dbCalls vdb @ [EnsureFullCommit_call]) = (Some info, None)
             \<longrightarrow> callsSince vdb (snd (ApplyUpdates couch lib vdb batch (Some h)))
                   = [EnsureFullCommit_call, GetDatabaseInfo_call,
                      SaveDoc_call savepointDocID []
                        \<lparr>JSONValue = marshalSavepoint
                            \<lparr>BlockNum = Height.BlockNum h, TxNum = Height.TxNum h,
                             UpdateSeq = DBInfo.UpdateSeq info\<rparr>,
                         Attachments = None\<rparr>]"
    using recordSavepoint_success [of couch vdb _ info h] by (auto simp: e)
  from e a b c show ?thesis by blast
qed

lemma decimal_10: "decimal 10 = ''10''"
  by code_simp

lemma decimal_2: "decimal 2 = ''2''"
  by code_simp

theorem ApplyUpdates_empty_batch_records_savepoint_witness:
  "allUpdates \<lparr>GetUpdatedNamespaces = [''ns''], GetUpdates = (\<lambda>ns. [])\<rparr> = []
   \<and> fst (ApplyUpdates quietStore exampleLib freshDB
            \<lparr>GetUpdatedNamespaces = [''ns''], GetUpdates = (\<lambda>ns. [])\<rparr> (Some (NewHeight 10 2)))
       = Inr ()
   \<and> callsSince freshDB
        (snd (ApplyUpdates quietStore exampleLib freshDB
                \<lparr>GetUpdatedNamespaces = [''ns''], GetUpdates = (\<lambda>ns. [])\<rparr>
                (Some (NewHeight 10 2))))
       = [EnsureFullCommit_call, GetDatabaseInfo_call,
          SaveDoc_call ''statedb_savepoint'' []
            \<lparr>JSONValue = [''BlockNum'' \<mapsto> JNumber ''10'', ''TxNum'' \<mapsto> JNumber ''2'',
                           ''UpdateSeq'' \<mapsto> JString ''7''],
             Attachments = None\<rparr>]"
proof -
  have e: "allUpdates \<lparr>GetUpdatedNamespaces = [''ns''], GetUpdates = (\<lambda>ns. [])\<rparr> = []"
    by (simp add: allUpdates_def)
  have f: "EnsureFullCommit quietStore (dbCalls freshDB)
             = (Some \<lparr>DBOperationResponse.Ok = True\<rparr>, None)"
    by (simp add: quietStore_def)
  have g: "GetDatabaseInfo quietStore (dbCalls freshDB @ [EnsureFullCommit_call])
             = (Some \<lparr>DBInfo.UpdateSeq = ''7''\<rparr>, None)"
    by (simp add: quietStore_def)
  have r: "fst (recordSavepoint quietStore freshDB (Some (NewHeight 10 2))) = Inr ()"
    by (simp add: recordSavepoint_def quietStore_def Let_def)
  have d: "marshalSavepoint \<lparr>BlockNum = 10, TxNum = 2, UpdateSeq = ''7''\<rparr>
             = [''BlockNum'' \<mapsto> JNumber ''10'', ''TxNum'' \<mapsto> JNumber ''2'',
                ''UpdateSeq'' \<mapsto> JString ''7'']"
    by (simp add: marshalSavepoint_def decimal_10 decimal_2)
  have ok: "DBOperationResponse.Ok \<lparr>DBOperationResponse.Ok = True\<rparr>"
    by simp
  note t = ApplyUpdates_empty_batch_records_savepoint
          [OF e, of quietStore exampleLib freshDB "NewHeight 10 2" "\<lparr>DBInfo.UpdateSeq = ''7''\<rparr>"]
  from t r have 1: "fst (ApplyUpdates quietStore exampleLib freshDB
            \<lparr>GetUpdatedNamespaces = [''ns''], GetUpdates = (\<lambda>ns. [])\<rparr> (Some (NewHeight 10 2)))
       = Inr ()"
    by simp
  from t f g ok have "callsSince freshDB
        (snd (ApplyUpdates quietStore exampleLib freshDB
                \<lparr>GetUpdatedNamespaces = [''ns''], GetUpdates = (\<lambda>ns. [])\<rparr>
                (Some (NewHeight 10 2))))
       = [EnsureFullCommit_call, GetDatabaseInfo_call,
          SaveDoc_call savepointDocID []
            \<lparr>JSONValue = marshalSavepoint
                \<lparr>BlockNum = Height.BlockNum (NewHeight 10 2),
                 TxNum = Height.TxNum (NewHeight 10 2),
                 UpdateSeq = DBInfo.UpdateSeq \<lparr>DBInfo.UpdateSeq = ''7''\<rparr>\<rparr>,
             Attachments = None\<rparr>]"
    by blast
  then have 2: "callsSince freshDB
        (snd (ApplyUpdates quietStore exampleLib freshDB
                \<lparr>GetUpdatedNamespaces = [''ns''], GetUpdates = (\<lambda>ns. [])\<rparr>
                (Some (NewHeight 10 2))))
       = [EnsureFullCommit_call, GetDatabaseInfo_call,
          SaveDoc_call ''statedb_savepoint'' []
            \<lparr>JSONValue = [''BlockNum'' \<mapsto> JNumber ''10'', ''TxNum'' \<mapsto> JNumber ''2'',
                           ''UpdateSeq'' \<mapsto> JString ''7''],
             Attachments = None\<rparr>]"
    by (simp add: NewHeight_def savepointDocID_def d)
  from e 1 2 show ?thesis by blast
qed

lemma find_first_bad:
  "\<forall>r \<in> set oks. \<not> P r \<Longrightarrow> P bad \<Longrightarrow> find P (oks @ bad # rest) = Some bad"
  by (induction oks) auto

lemma writeDocs_bad_document:
  assumes "docs \<noteq> []"
    and "BatchUpdateDocuments couch (dbCalls vdb1) docs = (oks @ bad # rest, None)"
    and "\<forall>r \<in> set oks. BatchUpdateResponse.Ok r"
    and "\<not> BatchUpdateResponse.Ok bad"
  shows "writeDocs couch lib vdb1 docs
           = (Inl (fmt_Errorf lib (saveErrorString bad)),
              sent vdb1 (BatchUpdateDocuments_call docs))"
proof -
  have "find (\<lambda>respDoc. BatchUpdateResponse.Ok respDoc \<noteq> True) (oks @ bad # rest) = Some bad"
    using assms(3,4) by (intro find_first_bad) auto
  with assms(1,2) show ?thesis
    by (simp add: writeDocs_def Let_def)
qed

lemma loadMissing_calls:
  "\<not> list_ex isSaveDoc (callsSince vdb (snd (loadMissing couch vdb batch)))
   \<and> dbCalls (snd (loadMissing couch vdb batch))
       = dbCalls vdb @ callsSince vdb (snd (loadMissing couch vdb batch))"
  by (simp add: loadMissing_def LoadCommittedVersions_def Let_def callsSince_def
      split: prod.splits)

lemma callsSince_append:
  "dbCalls vdb1 = dbCalls vdb @ cs \<Longrightarrow> callsSince vdb (sent vdb1 c) = cs @ [c]"
  by (simp add: callsSince_def sent_def)

text \<open>
  When the bulk write is reached and its response, returned without an error, holds a
  document that is not ok, \<open>ApplyUpdates\<close> returns the error that \<open>fmt.Errorf\<close> makes
  of the string composed for the first such document; the bulk write is the last call
  sent, so no savepoint is recorded, and the cache is empty.
\<close>

lemma ApplyUpdates_first_bad_document:
  assumes "loadMissing couch vdb batch = (Inr (), vdb1)"
    and "buildDocs lib (committedData vdb1) (allUpdates batch) = Inr docs" and "docs \<noteq> []"
    and "BatchUpdateDocuments couch (dbCalls vdb1) docs = (oks @ bad # rest, None)"
    and "\<forall>r \<in> set oks. BatchUpdateResponse.Ok r" and "\<not> BatchUpdateResponse.Ok bad"
  shows "ApplyUpdates couch lib vdb batch height
            = (Inl (ErrorsNew (doPrintf lib (saveErrorString bad))),
               ClearCachedVersions (sent vdb1 (BatchUpdateDocuments_call docs)))"
    and "callsSince vdb (snd (ApplyUpdates couch lib vdb batch height))
              = callsSince vdb vdb1 @ [BatchUpdateDocuments_call docs]"
    and "\<not> list_ex isSaveDoc (callsSince vdb (snd (ApplyUpdates couch lib vdb batch height)))"
proof -
  from assms have w: "writeDocs couch lib vdb1 docs
           = (Inl (fmt_Errorf lib (saveErrorString bad)),
              sent vdb1 (BatchUpdateDocuments_call docs))"
    by (intro writeDocs_bad_document) auto
  from assms(1,2) w show a: "ApplyUpdates couch lib vdb batch height
            = (Inl (ErrorsNew (doPrintf lib (saveErrorString bad))),
               ClearCachedVersions (sent vdb1 (BatchUpdateDocuments_call docs)))"
    by (simp add: ApplyUpdates_def fmt_Errorf_def)
  from assms(1) loadMissing_calls [of vdb couch batch]
  have l: "\<not> list_ex isSaveDoc (callsSince vdb vdb1)"
    "dbCalls vdb1 = dbCalls vdb @ callsSince vdb vdb1"
    by simp_all
  from a callsSince_append [OF l(2)]
  show c: "callsSince vdb (snd (ApplyUpdates couch lib vdb batch height))
              = callsSince vdb vdb1 @ [BatchUpdateDocuments_call docs]"
    by simp
  from l(1) show "\<not> list_ex isSaveDoc
                     (callsSince vdb (snd (ApplyUpdates couch lib vdb batch height)))"
    by (simp add: c)
qed

text \<open>A format string without \<open>%\<close> is printed as it is.\<close>

lemma doPrintf_no_percent: "CHR ''%'' \<notin> set s \<Longrightarrow> doPrintf lib s = s"
  by (induction s) auto

lemma saveErrorString_no_percent:
  assumes "CHR ''%'' \<notin> set (BatchUpdateResponse.ID bad)" and "CHR ''%'' \<notin> set (Error bad)"
    and "CHR ''%'' \<notin> set (Reason bad)"
  shows "doPrintf lib (saveErrorString bad) = saveErrorString bad"
  using assms by (intro doPrintf_no_percent) (auto simp: saveErrorString_def)

text \<open>
  C5. The error of \<open>ApplyUpdates\<close> does not always carry the id and the reason of the
  offending document. The response reports the document \<open>ns 0x00 k%d\<close> as not ok, with
  the error code \<open>conflict\<close> and the reason \<open>100% full\<close>. Line 434 hands the composed
  string to \<open>fmt.Errorf\<close> as the format: the message of the returned error has
  \<open>k%!d(MISSING)\<close> for the key and \<open>100%!f(MISSING)ull\<close> for the reason. No savepoint
  is recorded and the cache is empty.
\<close>

theorem ApplyUpdates_error_message_reformatted:
  "fst (ApplyUpdates percentStore exampleLib freshDB percentUpdate (Some (NewHeight 1 1)))
     = Inl (ErrorsNew
         (''Error occurred while saving document ID = ns'' @ [CHR 0x00]
            @ ''k%!d(MISSING)  Error: conflict  Reason: 100%!f(MISSING)ull'' @ [CHR 0x0A]))
   \<and> \<not> list_ex isSaveDoc (callsSince freshDB
        (snd (ApplyUpdates percentStore exampleLib freshDB percentUpdate (Some (NewHeight 1 1)))))
   \<and> committedData
        (snd (ApplyUpdates percentStore exampleLib freshDB percentUpdate (Some (NewHeight 1 1))))
       = emptyCommittedVersions"
proof -
  have "fst (loadMissing percentStore freshDB percentUpdate) = Inr ()"
    by (simp add: loadMissing_def missingKeysOf_def LoadCommittedVersions_def percentStore_def
        quietStore_def percentUpdate_def freshDB_def emptyCommittedVersions_def Let_def)
  then obtain vdb1 where 1: "loadMissing percentStore freshDB percentUpdate = (Inr (), vdb1)"
    by (cases "loadMissing percentStore freshDB percentUpdate") auto
  have "\<exists>d. buildDocs exampleLib (committedData vdb1) (allUpdates percentUpdate) = Inr [d]"
    by (simp add: allUpdates_def percentUpdate_def buildCouchDoc_def
        addCouchDBFieldsToValue_def exampleLib_def NewHeight_def Let_def)
  then obtain d where
    2: "buildDocs exampleLib (committedData vdb1) (allUpdates percentUpdate) = Inr [d]"
    by blast
  let ?bad = "\<lparr>BatchUpdateResponse.ID = ''ns'' @ [CHR 0x00] @ ''k%d'', Error = ''conflict'',
          Reason = ''100% full'', BatchUpdateResponse.Ok = False\<rparr>"
  have 4: "BatchUpdateDocuments percentStore (dbCalls vdb1) [d] = ([] @ ?bad # [], None)"
    by (simp add: percentStore_def)
  note t = ApplyUpdates_first_bad_document
             [OF 1 2 _ 4, where height = "Some (NewHeight 1 1)"]
  have m: "doPrintf exampleLib (saveErrorString ?bad)
     = ''Error occurred while saving document ID = ns'' @ [CHR 0x00]
            @ ''k%!d(MISSING)  Error: conflict  Reason: 100%!f(MISSING)ull'' @ [CHR 0x0A]"
    by (simp add: saveErrorString_def isFlag_def isPlainVerb_def)
  have a: "fst (ApplyUpdates percentStore exampleLib freshDB percentUpdate (Some (NewHeight 1 1)))
     = Inl (ErrorsNew (doPrintf exampleLib (saveErrorString ?bad)))"
    using t(1) by simp
  have b: "\<not> list_ex isSaveDoc (callsSince freshDB
        (snd (ApplyUpdates percentStore exampleLib freshDB percentUpdate (Some (NewHeight 1 1)))))"
    using t(3) by simp
  from a b m ApplyUpdates_clears_cache
         [of percentStore exampleLib freshDB percentUpdate "Some (NewHeight 1 1)"]
  show ?thesis by simp
qed

subsection \<open>The documents of a batch\<close>

lemma buildCouchDoc_tombstone:
  assumes "buildCouchDoc lib cd ns k vv = Inr d" and "Value vv = None"
  shows "JSONValue d ''_deleted'' = Some (JBool True) \<and> \<not> carriesInlineData d
         \<and> \<not> carriesAttachment d \<and> JSONValue d ''chaincodeid'' = None"
  using assms
  by (auto simp: buildCouchDoc_def addCouchDBFieldsToValue_def carriesInlineData_def
      carriesAttachment_def dataWrapper_def Let_def split: option.splits)

lemma buildCouchDoc_value:
  assumes "buildCouchDoc lib cd ns k vv = Inr d" and "Value vv = Some bs"
    and "IsJSON lib bs \<longrightarrow> json_Valid lib bs"
  shows "(carriesInlineData d \<longleftrightarrow> \<not> carriesAttachment d)
         \<and> (carriesInlineData d \<longleftrightarrow> IsJSON lib bs)
         \<and> (IsJSON lib bs \<longrightarrow> JSONValue d dataWrapper = Some (JRaw bs) \<and> Attachments d = None)
         \<and> (\<not> IsJSON lib bs \<longrightarrow>
               JSONValue d dataWrapper = None
               \<and> Attachments d = Some [\<lparr>AttachmentBytes = Some bs,
                                         ContentType = ''application/octet-stream'',
                                         Name = binaryWrapper\<rparr>])
         \<and> JSONValue d ''_deleted'' = None
         \<and> JSONValue d ''chaincodeid'' = Some (JString ns)"
  using assms
  by (auto simp: buildCouchDoc_def addCouchDBFieldsToValue_def carriesInlineData_def
      carriesAttachment_def dataWrapper_def Let_def split: option.splits if_splits)

text \<open>
  Without that assumption the document can carry neither: bytes that \<open>IsJSON\<close> accepts
  and \<open>json.Marshal\<close> rejects leave the \<open>nil\<close> document and no attachment.
\<close>

lemma buildCouchDoc_marshal_failure:
  assumes "Value vv = Some bs" and "IsJSON lib bs" and "\<not> json_Valid lib bs"
    and "VersionedValue.Version vv = Some h"
  shows "buildCouchDoc lib cd ns k vv = Inr \<lparr>JSONValue = Map.empty, Attachments = None\<rparr>"
  using assms
  by (simp add: buildCouchDoc_def addCouchDBFieldsToValue_def dataWrapper_def Let_def)

lemma buildDocs_nth:
  "buildDocs lib cd us = Inr docs \<Longrightarrow>
   length docs = length us
   \<and> (\<forall>i < length us. \<forall>ns k vv. us ! i = (ns, k, vv) \<longrightarrow>
          buildCouchDoc lib cd ns k vv = Inr (docs ! i))"
proof (induction us arbitrary: docs)
  case Nil
  then show ?case by simp
next
  case (Cons u us)
  obtain ns k vv where u: "u = (ns, k, vv)" by (cases u)
  from Cons.prems u obtain d ds where
    d: "buildCouchDoc lib cd ns k vv = Inr d" and ds: "buildDocs lib cd us = Inr ds"
    and docs: "docs = d # ds"
    by (auto split: sum.splits)
  from Cons.IH [OF ds] u d docs show ?case
    by (auto simp: nth_Cons split: nat.splits)
qed

lemma loadMissing_no_bulk_write:
  "\<exists>cs. dbCalls (snd (loadMissing couch vdb batch)) = dbCalls vdb @ cs
        \<and> \<not> list_ex isBatchUpdate cs"
  by (simp add: loadMissing_def LoadCommittedVersions_def Let_def split: prod.splits)

lemma writeDocs_calls:
  "dbCalls (snd (writeDocs couch lib vdb1 docs))
     = dbCalls vdb1 @ (if docs \<noteq> [] then [BatchUpdateDocuments_call docs] else [])"
  by (simp add: writeDocs_def Let_def split: prod.splits option.splits)

lemma recordSavepoint_calls_no_bulk_write:
  "\<exists>cs. dbCalls (snd (recordSavepoint couch vdb height)) = dbCalls vdb @ cs
        \<and> \<not> list_ex isBatchUpdate cs"
  by (simp add: recordSavepoint_def Let_def split: prod.splits option.splits)

lemma ApplyUpdates_calls:
  "\<exists>cs1 cs2 cs3.
     callsSince vdb (snd (ApplyUpdates couch lib vdb batch height)) = cs1 @ cs2 @ cs3
     \<and> \<not> list_ex isBatchUpdate cs1 \<and> \<not> list_ex isBatchUpdate cs3
     \<and> (cs2 = [] \<or>
          (\<exists>docs. cs2 = [BatchUpdateDocuments_call docs]
             \<and> buildDocs lib (committedData (snd (loadMissing couch vdb batch)))
                  (allUpdates batch) = Inr docs))"
proof -
  obtain r1 vdb1 where l: "loadMissing couch vdb batch = (r1, vdb1)"
    by (cases "loadMissing couch vdb batch")
  from loadMissing_no_bulk_write [of couch vdb batch] l obtain cs1 where
    cs1: "dbCalls vdb1 = dbCalls vdb @ cs1" "\<not> list_ex isBatchUpdate cs1"
    by auto
  show ?thesis
  proof (cases r1)
    case (Inl p)
    with l cs1 have "callsSince vdb (snd (ApplyUpdates couch lib vdb batch height)) = cs1 @ [] @ []"
      by (simp add: ApplyUpdates_def callsSince_def)
    with cs1 show ?thesis
      by (intro exI [of _ cs1] exI [of _ "[]"]) simp
  next
    case r1: (Inr u)
    show ?thesis
    proof (cases "buildDocs lib (committedData vdb1) (allUpdates batch)")
      case (Inl p)
      with l r1 cs1
      have "callsSince vdb (snd (ApplyUpdates couch lib vdb batch height)) = cs1 @ [] @ []"
        by (simp add: ApplyUpdates_def callsSince_def)
      with cs1 show ?thesis
      by (intro exI [of _ cs1] exI [of _ "[]"]) simp
    next
      case docs: (Inr docs)
      obtain r2 vdb2 where w: "writeDocs couch lib vdb1 docs = (r2, vdb2)"
        by (cases "writeDocs couch lib vdb1 docs")
      let ?cs2 = "if docs \<noteq> [] then [BatchUpdateDocuments_call docs] else []"
      from writeDocs_calls [of couch lib vdb1 docs] w
      have cs2: "dbCalls vdb2 = dbCalls vdb1 @ ?cs2"
        by simp
      have ok2: "?cs2 = [] \<or>
          (\<exists>ds. ?cs2 = [BatchUpdateDocuments_call ds]
             \<and> buildDocs lib (committedData (snd (loadMissing couch vdb batch)))
                  (allUpdates batch) = Inr ds)"
        using l docs by simp
      show ?thesis
      proof (cases r2)
        case (Inl e)
        with l r1 docs w cs1 cs2
        have "callsSince vdb (snd (ApplyUpdates couch lib vdb batch height)) = cs1 @ ?cs2 @ []"
          by (simp add: ApplyUpdates_def callsSince_def)
        with cs1 ok2 show ?thesis
          by (intro exI [of _ cs1] exI [of _ ?cs2] exI [of _ "[]"]) simp
      next
        case r2: (Inr u')
        obtain r3 vdb3 where s: "recordSavepoint couch vdb2 height = (r3, vdb3)"
          by (cases "recordSavepoint couch vdb2 height")
        from recordSavepoint_calls_no_bulk_write [of couch vdb2 height] s obtain cs3 where
          cs3: "dbCalls vdb3 = dbCalls vdb2 @ cs3" "\<not> list_ex isBatchUpdate cs3"
          by auto
        from l r1 docs w r2 s
        have "snd (ApplyUpdates couch lib vdb batch height) = ClearCachedVersions vdb3"
          by (simp add: ApplyUpdates_def)
        with cs1 cs2 cs3
        have "callsSince vdb (snd (ApplyUpdates couch lib vdb batch height)) = cs1 @ ?cs2 @ cs3"
          by (simp add: callsSince_def)
        with cs1 cs3 ok2 show ?thesis by blast
      qed
    qed
  qed
qed

lemma ApplyUpdates_sends_built_docs:
  assumes "BatchUpdateDocuments_call docs
             \<in> set (callsSince vdb (snd (ApplyUpdates couch lib vdb batch height)))"
  shows "buildDocs lib (committedData (snd (loadMissing couch vdb batch))) (allUpdates batch)
           = Inr docs"
proof -
  from ApplyUpdates_calls [of vdb couch lib batch height] obtain cs1 cs2 cs3 where
    c: "callsSince vdb (snd (ApplyUpdates couch lib vdb batch height)) = cs1 @ cs2 @ cs3"
      "\<not> list_ex isBatchUpdate cs1" "\<not> list_ex isBatchUpdate cs3"
      "cs2 = [] \<or>
          (\<exists>ds. cs2 = [BatchUpdateDocuments_call ds]
             \<and> buildDocs lib (committedData (snd (loadMissing couch vdb batch)))
                  (allUpdates batch) = Inr ds)"
    by blast
  from c(2,3) have "BatchUpdateDocuments_call docs \<notin> set cs1"
    "BatchUpdateDocuments_call docs \<notin> set cs3"
    by (auto simp: list_ex_iff)
  with assms c(1) have "BatchUpdateDocuments_call docs \<in> set cs2"
    by auto
  with c(4) show ?thesis by auto
qed

text \<open>
  C8. Every document \<open>ApplyUpdates\<close> hands to the bulk write is built from one update
  of the batch, in order. Let the values of the batch that \<open>couchdb.IsJSON\<close> accepts be
  JSON texts. Then for a value that is not \<open>nil\<close> the document carries either
  the inlined data field or the binary attachment and not both: the data field, holding
  the value bytes, when \<open>IsJSON\<close> accepts them, the attachment otherwise. For a deletion
  the document carries the \<open>_deleted\<close> flag, no data field, no attachment and no
  \<open>chaincodeid\<close>.
\<close>

theorem ApplyUpdates_documents_payload:
  assumes "BatchUpdateDocuments_call docs
             \<in> set (callsSince vdb (snd (ApplyUpdates couch lib vdb batch height)))"
    and "IsJSON_sound lib batch"
  shows "length docs = length (allUpdates batch)
         \<and> (\<forall>i < length docs. \<forall>ns k vv. allUpdates batch ! i = (ns, k, vv) \<longrightarrow>
              (case Value vv of
                 None \<Rightarrow>
                   JSONValue (docs ! i) ''_deleted'' = Some (JBool True)
                   \<and> \<not> carriesInlineData (docs ! i) \<and> \<not> carriesAttachment (docs ! i)
                   \<and> JSONValue (docs ! i) ''chaincodeid'' = None
               | Some bs \<Rightarrow>
                   (carriesInlineData (docs ! i) \<longleftrightarrow> \<not> carriesAttachment (docs ! i))
                   \<and> (carriesInlineData (docs ! i) \<longleftrightarrow> IsJSON lib bs)
                   \<and> (IsJSON lib bs \<longrightarrow>
                         JSONValue (docs ! i) dataWrapper = Some (JRaw bs)
                         \<and> Attachments (docs ! i) = None)
                   \<and> (\<not> IsJSON lib bs \<longrightarrow>
                         Attachments (docs ! i)
                           = Some [\<lparr>AttachmentBytes = Some bs,
                                    ContentType = ''application/octet-stream'',
                                    Name = binaryWrapper\<rparr>])
                   \<and> JSONValue (docs ! i) ''_deleted'' = None))"
proof -
  let ?cd = "committedData (snd (loadMissing couch vdb batch))"
  from ApplyUpdates_sends_built_docs [OF assms(1)]
  have b: "buildDocs lib ?cd (allUpdates batch) = Inr docs" .
  note n = buildDocs_nth [OF b]
  show ?thesis
  proof (intro conjI allI impI)
    show "length docs = length (allUpdates batch)" using n by simp
  next
    fix i ns k vv
    assume i: "i < length docs" and u: "allUpdates batch ! i = (ns, k, vv)"
    with n have d: "buildCouchDoc lib ?cd ns k vv = Inr (docs ! i)" by simp
    show "case Value vv of
                 None \<Rightarrow>
                   JSONValue (docs ! i) ''_deleted'' = Some (JBool True)
                   \<and> \<not> carriesInlineData (docs ! i) \<and> \<not> carriesAttachment (docs ! i)
                   \<and> JSONValue (docs ! i) ''chaincodeid'' = None
               | Some bs \<Rightarrow>
                   (carriesInlineData (docs ! i) \<longleftrightarrow> \<not> carriesAttachment (docs ! i))
                   \<and> (carriesInlineData (docs ! i) \<longleftrightarrow> IsJSON lib bs)
                   \<and> (IsJSON lib bs \<longrightarrow>
                         JSONValue (docs ! i) dataWrapper = Some (JRaw bs)
                         \<and> Attachments (docs ! i) = None)
                   \<and> (\<not> IsJSON lib bs \<longrightarrow>
                         Attachments (docs ! i)
                           = Some [\<lparr>AttachmentBytes = Some bs,
                                    ContentType = ''application/octet-stream'',
                                    Name = binaryWrapper\<rparr>])
                   \<and> JSONValue (docs ! i) ''_deleted'' = None"
    proof (cases "Value vv")
      case None
      with buildCouchDoc_tombstone [OF d None] show ?thesis by (simp only: option.case) blast
    next
      case (Some bs)
      from i n have "i < length (allUpdates batch)" by simp
      then have "allUpdates batch ! i \<in> set (allUpdates batch)" by simp
      with assms(2) u Some have "IsJSON lib bs \<longrightarrow> json_Valid lib bs"
        by (auto simp: IsJSON_sound_def list_all_iff)
      with buildCouchDoc_value [OF d Some] Some show ?thesis
        by (simp only: option.case) blast
    qed
  qed
qed

theorem ApplyUpdates_documents_payload_witness:
  "IsJSON_sound exampleLib threeUpdates
   \<and> BatchUpdateDocuments_call threeDocs
     \<in> set (callsSince freshDB
          (snd (ApplyUpdates quietStore exampleLib freshDB threeUpdates (Some (NewHeight 1 1)))))
   \<and> length threeDocs = 3
   \<and> carriesInlineData (threeDocs ! 0) \<and> \<not> carriesAttachment (threeDocs ! 0)
   \<and> \<not> carriesInlineData (threeDocs ! 1) \<and> carriesAttachment (threeDocs ! 1)
   \<and> JSONValue (threeDocs ! 2) ''_deleted'' = Some (JBool True)
   \<and> \<not> carriesInlineData (threeDocs ! 2) \<and> \<not> carriesAttachment (threeDocs ! 2)
   \<and> JSONValue (threeDocs ! 2) ''chaincodeid'' = None"
proof -
  have "fst (loadMissing quietStore freshDB threeUpdates) = Inr ()"
    by (simp add: loadMissing_def missingKeysOf_def LoadCommittedVersions_def
        quietStore_def threeUpdates_def freshDB_def emptyCommittedVersions_def Let_def)
  then obtain vdb1 where 1: "loadMissing quietStore freshDB threeUpdates = (Inr (), vdb1)"
    by (cases "loadMissing quietStore freshDB threeUpdates") auto
  have u: "allUpdates threeUpdates =
     [(''ns'', ''j'', \<lparr>Value = Some ''{}'', VersionedValue.Version = Some (NewHeight 1 1)\<rparr>),
      (''ns'', ''b'', \<lparr>Value = Some [CHR 0x00, CHR 0x01, CHR 0x02],
                  VersionedValue.Version = Some (NewHeight 1 1)\<rparr>),
      (''ns'', ''t'', \<lparr>Value = None, VersionedValue.Version = Some (NewHeight 1 1)\<rparr>)]"
    by (simp add: allUpdates_def threeUpdates_def)
  have "\<exists>d1 d2 d3. buildDocs exampleLib (committedData vdb1) (allUpdates threeUpdates)
          = Inr [d1, d2, d3]"
    by (simp add: u buildCouchDoc_def addCouchDBFieldsToValue_def exampleLib_def
        NewHeight_def Let_def)
  then obtain d1 d2 d3 where
    2: "buildDocs exampleLib (committedData vdb1) (allUpdates threeUpdates) = Inr threeDocs"
    and 3: "threeDocs = [d1, d2, d3]"
    by (auto simp: threeDocs_def 1)
  have 4: "writeDocs quietStore exampleLib vdb1 threeDocs
             = (Inr (), sent vdb1 (BatchUpdateDocuments_call threeDocs))"
    by (simp add: 3 writeDocs_def quietStore_def Let_def)
  obtain cs where
    5: "dbCalls (snd (recordSavepoint quietStore
                        (sent vdb1 (BatchUpdateDocuments_call threeDocs))
                        (Some (NewHeight 1 1))))
          = dbCalls (sent vdb1 (BatchUpdateDocuments_call threeDocs))
              @ EnsureFullCommit_call # cs"
    using recordSavepoint_calls
            [of "sent vdb1 (BatchUpdateDocuments_call threeDocs)" quietStore
                "Some (NewHeight 1 1)"]
    by blast
  from 1 2 4
  have "snd (ApplyUpdates quietStore exampleLib freshDB threeUpdates (Some (NewHeight 1 1)))
          = ClearCachedVersions
              (snd (recordSavepoint quietStore
                      (sent vdb1 (BatchUpdateDocuments_call threeDocs))
                      (Some (NewHeight 1 1))))"
    by (simp add: ApplyUpdates_def case_prod_beta)
  with 5 have m: "BatchUpdateDocuments_call threeDocs
     \<in> set (callsSince freshDB
          (snd (ApplyUpdates quietStore exampleLib freshDB threeUpdates (Some (NewHeight 1 1)))))"
    by (simp add: callsSince_def freshDB_def)
  have s: "IsJSON_sound exampleLib threeUpdates"
    by (simp add: IsJSON_sound_def u exampleLib_def)
  note t = ApplyUpdates_documents_payload [OF m s]
  from t have len: "length threeDocs = 3"
    by (simp add: u)
  have j: "IsJSON exampleLib ''{}''" and b: "\<not> IsJSON exampleLib [CHR 0x00, CHR 0x01, CHR 0x02]"
    by (simp_all add: exampleLib_def)
  from t len u j have d0: "carriesInlineData (threeDocs ! 0) \<and> \<not> carriesAttachment (threeDocs ! 0)"
    by (auto dest!: spec [of _ 0])
  from t len u b have d1: "\<not> carriesInlineData (threeDocs ! 1) \<and> carriesAttachment (threeDocs ! 1)"
    by (auto dest!: spec [of _ 1])
  from t len u
  have d2: "JSONValue (threeDocs ! 2) ''_deleted'' = Some (JBool True)
   \<and> \<not> carriesInlineData (threeDocs ! 2) \<and> \<not> carriesAttachment (threeDocs ! 2)
   \<and> JSONValue (threeDocs ! 2) ''chaincodeid'' = None"
    by (auto dest!: spec [of _ 2])
  from s m len d0 d1 d2 show ?thesis by blast
qed

subsection \<open>Reading several keys\<close>






















end
